theory Spec2Isabelle
  imports Complex_Main "HOL-Library.Word"
begin

section \<open>Values of the JavaScript runtime\<close>

text \<open>
  A byte of a \<^verbatim>\<open>Buffer\<close> or \<^verbatim>\<open>Uint8Array\<close> is an 8-bit word. A JavaScript string is
  a sequence of UTF-16 code units. An ASCII string literal of the source is written as an
  Isabelle string and converted with \<open>js\<close>.
\<close>

type_synonym byte = "8 word"
type_synonym js_string = "16 word list"

definition js :: "string \<Rightarrow> js_string" where
  "js s = map (\<lambda>c. of_nat (of_char c)) s"

text \<open>
  The type \<^verbatim>\<open>number\<close>: a finite value, or one of the three special values. Every finite
  double is a real number, so a statement about all \<open>Num r\<close> covers all finite doubles.
  \<open>truthy\<close> is the conversion to boolean that \<^verbatim>\<open>!x\<close> and \<^verbatim>\<open>x && y\<close> apply
  (\<^verbatim>\<open>0\<close>, \<^verbatim>\<open>-0\<close> and \<^verbatim>\<open>NaN\<close> are falsy); \<open>gt0\<close> is \<^verbatim>\<open>x > 0\<close> and \<open>le0\<close> is
  \<^verbatim>\<open>x <= 0\<close>, both false on \<^verbatim>\<open>NaN\<close>.
\<close>

datatype number = Num real | NaN | PosInfinity | NegInfinity

fun truthy :: "number \<Rightarrow> bool" where
  "truthy (Num r) = (r \<noteq> 0)"
| "truthy NaN = False"
| "truthy PosInfinity = True"
| "truthy NegInfinity = True"

fun gt0 :: "number \<Rightarrow> bool" where
  "gt0 (Num r) = (0 < r)"
| "gt0 NaN = False"
| "gt0 PosInfinity = True"
| "gt0 NegInfinity = False"

fun le0 :: "number \<Rightarrow> bool" where
  "le0 (Num r) = (r \<le> 0)"
| "le0 NaN = False"
| "le0 PosInfinity = False"
| "le0 NegInfinity = True"

text \<open>
  \<^verbatim>\<open>xs[i]\<close> on an array: the element, or \<^verbatim>\<open>undefined\<close> (here \<open>None\<close>) when \<open>i\<close> is
  not an index of \<open>xs\<close>.
\<close>

definition index :: "'a list \<Rightarrow> nat \<Rightarrow> 'a option" where
  "index xs i = (if i < length xs then Some (xs ! i) else None)"

subsection \<open>\<^verbatim>\<open>Buffer.from(s, 'utf8')\<close>\<close>

text \<open>
  Node encodes the code units of the string as UTF-8: one byte below \<open>0x80\<close>, two below
  \<open>0x800\<close>, four for a surrogate pair, three otherwise; a surrogate that is not part of a
  pair is encoded as \<open>U+FFFD\<close> (\<open>EF BF BD\<close>).
\<close>

definition utf8_1 :: "nat \<Rightarrow> byte list" where
  "utf8_1 c = [of_nat c]"

definition utf8_2 :: "nat \<Rightarrow> byte list" where
  "utf8_2 c = [of_nat (192 + c div 64), of_nat (128 + c mod 64)]"

definition utf8_3 :: "nat \<Rightarrow> byte list" where
  "utf8_3 c = [of_nat (224 + c div 4096), of_nat (128 + (c div 64) mod 64), of_nat (128 + c mod 64)]"

definition utf8_4 :: "nat \<Rightarrow> byte list" where
  "utf8_4 c = [of_nat (240 + c div 262144), of_nat (128 + (c div 4096) mod 64),
               of_nat (128 + (c div 64) mod 64), of_nat (128 + c mod 64)]"

definition is_lead :: "nat \<Rightarrow> bool" where
  "is_lead c = (55296 \<le> c \<and> c < 56320)"

definition is_trail :: "nat \<Rightarrow> bool" where
  "is_trail c = (56320 \<le> c \<and> c < 57344)"

fun utf8_units :: "nat list \<Rightarrow> byte list" where
  "utf8_units [] = []"
| "utf8_units [c] =
     (if c < 128 then utf8_1 c
      else if c < 2048 then utf8_2 c
      else if is_lead c \<or> is_trail c then utf8_3 65533
      else utf8_3 c)"
| "utf8_units (c # d # cs) =
     (if c < 128 then utf8_1 c @ utf8_units (d # cs)
      else if c < 2048 then utf8_2 c @ utf8_units (d # cs)
      else if is_lead c \<and> is_trail d
        then utf8_4 (65536 + (c - 55296) * 1024 + (d - 56320)) @ utf8_units cs
      else if is_lead c \<or> is_trail c then utf8_3 65533 @ utf8_units (d # cs)
      else utf8_3 c @ utf8_units (d # cs))"

definition Buffer_from_utf8 :: "js_string \<Rightarrow> byte list" where
  "Buffer_from_utf8 s = utf8_units (map unat s)"

text \<open>\<^verbatim>\<open>buf.slice(0, n)\<close> keeps the first \<open>n\<close> bytes, or all of them when there are fewer.\<close>

definition slice0 :: "nat \<Rightarrow> byte list \<Rightarrow> byte list" where
  "slice0 n buf = take n buf"

text \<open>\<^verbatim>\<open>x ?? d\<close>: the value, or the default when it is \<^verbatim>\<open>undefined\<close>.\<close>

definition orElse :: "'a option \<Rightarrow> 'a \<Rightarrow> 'a" where
  "orElse x d = (case x of None \<Rightarrow> d | Some v \<Rightarrow> v)"

section \<open>Data of the SDK\<close>

text \<open>
  A \<^verbatim>\<open>PublicKey\<close> is its 32-byte buffer; \<^verbatim>\<open>equals\<close> compares the bytes. A
  \<^verbatim>\<open>Keypair\<close> is a public key and a secret key.
\<close>

datatype PublicKey = PublicKey (toBuffer: "byte list")

datatype Keypair = Keypair (kp_publicKey: PublicKey) (kp_secretKey: "byte list")

text \<open>
  The data of a \<^verbatim>\<open>SwitchboardProgram\<close> that \<^verbatim>\<open>oracleAccount.ts\<close> reads:
  \<^verbatim>\<open>program.programId\<close>, \<^verbatim>\<open>program.walletPubkey\<close>, \<^verbatim>\<open>program.mint.address\<close>,
  \<^verbatim>\<open>program.programState.publicKey\<close> and \<^verbatim>\<open>program.programState.bump\<close>.
\<close>

record program =
  programId :: PublicKey
  walletPubkey :: PublicKey
  mint_address :: PublicKey
  programState_publicKey :: PublicKey
  programState_bump :: nat

text \<open>
  Every account wrapper (\<^verbatim>\<open>OracleAccount\<close>, \<^verbatim>\<open>QueueAccount\<close>, \<^verbatim>\<open>PermissionAccount\<close>)
  extends \<^verbatim>\<open>Account\<close>: a program and a public key.
\<close>

record Account =
  program :: program
  publicKey :: PublicKey

text \<open>
  The generated declarations of the account data are not part of the files at hand; the
  records hold the fields that \<^verbatim>\<open>oracleAccount.ts\<close> reads.
\<close>

record OracleAccountData =
  oracleAuthority :: PublicKey
  tokenAccount :: PublicKey
  queuePubkey :: PublicKey

record OracleQueueAccountData =
  q_authority :: PublicKey
  gcIdx :: nat
  q_dataBuffer :: PublicKey

subsection \<open>Instructions and transactions\<close>

datatype AuthorityType = MintTokens | FreezeAccount | AccountOwner | CloseAccountAuthority

datatype amount = AmountNumber number | AmountBigInt int

record OracleInitArgs =
  arg_name :: "byte list"
  arg_metadata :: "byte list"
  arg_oracleBump :: nat
  arg_stateBump :: nat

record OracleInitAccounts =
  acc_oracle :: PublicKey
  acc_oracleAuthority :: PublicKey
  acc_wallet :: PublicKey
  acc_programState :: PublicKey
  acc_queue :: PublicKey
  acc_payer :: PublicKey
  acc_systemProgram :: PublicKey

text \<open>
  \<open>hb_gcOracle\<close> is an option: \<^verbatim>\<open>heartbeat\<close> passes \<^verbatim>\<open>oracles[queue.gcIdx]\<close>, which
  is \<^verbatim>\<open>undefined\<close> (\<open>None\<close>) when the index is out of range.
\<close>

record OracleHeartbeatAccounts =
  hb_oracle :: PublicKey
  hb_oracleAuthority :: PublicKey
  hb_tokenAccount :: PublicKey
  hb_gcOracle :: "PublicKey option"
  hb_oracleQueue :: PublicKey
  hb_permission :: PublicKey
  hb_dataBuffer :: PublicKey

text \<open>
  One constructor for each instruction builder the two files call, with the arguments in
  the order of the call. An optional trailing \<^verbatim>\<open>programId\<close> that the call leaves out is
  \<open>None\<close>. \<open>Prepared\<close> stands for an instruction made by another module.
\<close>

datatype instruction =
    SystemCreateAccount PublicKey PublicKey nat nat PublicKey
  | InitializeAccount PublicKey PublicKey PublicKey
  | SetAuthority PublicKey PublicKey AuthorityType PublicKey
  | OracleInit OracleInitArgs OracleInitAccounts
  | OracleHeartbeat nat OracleHeartbeatAccounts
  | TokenTransfer PublicKey PublicKey PublicKey amount "Keypair list" "PublicKey option"
  | CreateAssociatedTokenAccount PublicKey PublicKey PublicKey PublicKey PublicKey PublicKey
  | SystemTransfer PublicKey PublicKey number
  | SyncNative PublicKey PublicKey
  | CloseAccount PublicKey PublicKey PublicKey "Keypair list" PublicKey
  | Prepared nat

text \<open>
  Modelled from the spec: the transaction composition helper \<^verbatim>\<open>TransactionObject\<close>
  (\<^verbatim>\<open>../transaction\<close>), of which the files at hand hold only the callers. An object is
  built from a payer, a sequence of instructions and the signers; \<^verbatim>\<open>add\<close> appends an
  instruction. Packing is a parameter (\<open>pack\<close> below).
\<close>

record TransactionObject =
  payer :: PublicKey
  ixns :: "instruction list"
  signers :: "Keypair list"

definition add :: "TransactionObject \<Rightarrow> instruction \<Rightarrow> TransactionObject" where
  "add txn ixn = txn\<lparr>ixns := ixns txn @ [ixn]\<rparr>"

subsection \<open>Exceptions\<close>

text \<open>
  \<open>thrown\<close> is an exception raised by a callee outside the two files; it propagates
  unchanged as \<open>Thrown\<close>. The other constructors are the throw sites of the two files:
  \<^verbatim>\<open>new errors.AccountNotFoundError(key)\<close>, \<^verbatim>\<open>new errors.IncorrectAuthority(expected,
  received)\<close> and \<^verbatim>\<open>new Error(message)\<close>.
\<close>

datatype thrown = Exception string

datatype error =
    AccountNotFoundError PublicKey
  | IncorrectAuthority PublicKey PublicKey
  | Error string
  | Thrown thrown

type_synonym TransactionSignature = string

subsection \<open>The chain and what was submitted to it\<close>

text \<open>
  The state of the chain is a type parameter \<open>'c\<close>: a call that reads it takes it, a call
  that may change it returns the new one. \<open>sent\<close> records, in order, every transaction
  that the two files hand over for signing and sending.
\<close>

datatype submission =
    SignAndSend TransactionObject
  | SendAndConfirm "instruction list" "Keypair list"

record 'c world =
  chain :: 'c
  sent :: "submission list"

section \<open>What \<^verbatim>\<open>oracleAccount.ts\<close> calls\<close>

text \<open>
  The constants and functions that \<^verbatim>\<open>oracleAccount.ts\<close> imports are parameters: the
  constants of \<^verbatim>\<open>@solana/spl-token\<close> and \<^verbatim>\<open>@solana/web3.js\<close>, the \<^verbatim>\<open>PublicKey\<close>
  constructor on a string, the derivation of a program address (a pure function of the seeds
  and the program id), the RPC calls, the generated codec, and the other modules of the SDK
  (mint, transaction packing, queue and permission accounts, \<^verbatim>\<open>signAndSend\<close>).
\<close>

record 'c externals =
  ACCOUNT_SIZE :: nat
  TOKEN_PROGRAM_ID :: PublicKey
  SystemProgram_programId :: PublicKey
  newPublicKey :: "js_string \<Rightarrow> thrown + PublicKey"
  findProgramAddressSync :: "byte list list \<Rightarrow> PublicKey \<Rightarrow> PublicKey \<times> nat"
  getMinimumBalanceForRentExemption :: "nat \<Rightarrow> 'c \<Rightarrow> thrown + nat"
  OracleAccountData_fetch :: "program \<Rightarrow> PublicKey \<Rightarrow> 'c \<Rightarrow> thrown + OracleAccountData option"
  OracleAccountData_decode :: "byte list \<Rightarrow> thrown + OracleAccountData"
  coder_decode :: "program \<Rightarrow> js_string \<Rightarrow> byte list \<Rightarrow> thrown + OracleAccountData"
  getOrCreateWrappedUserInstructions ::
    "program \<Rightarrow> PublicKey \<Rightarrow> number \<Rightarrow> Keypair option \<Rightarrow> 'c \<Rightarrow> thrown + PublicKey \<times> TransactionObject"
  toTokenAmount :: "program \<Rightarrow> number \<Rightarrow> int"
  pack :: "TransactionObject list \<Rightarrow> thrown + TransactionObject list"
  QueueAccount_loadData :: "Account \<Rightarrow> 'c \<Rightarrow> thrown + OracleQueueAccountData"
  loadOracles :: "Account \<Rightarrow> 'c \<Rightarrow> thrown + PublicKey list"
  PermissionAccount_fromSeed :: "program \<Rightarrow> PublicKey \<Rightarrow> PublicKey \<Rightarrow> PublicKey \<Rightarrow> Account \<times> nat"
  PermissionAccount_loadData :: "Account \<Rightarrow> 'c \<Rightarrow> thrown + unit"
  signAndSend :: "program \<Rightarrow> TransactionObject \<Rightarrow> 'c \<Rightarrow> (thrown + TransactionSignature) \<times> 'c"

section \<open>\<^verbatim>\<open>oracleAccount.ts\<close>\<close>

subsection \<open>\<^verbatim>\<open>loadData\<close>, \<^verbatim>\<open>load\<close>, \<^verbatim>\<open>decode\<close>, \<^verbatim>\<open>fromSeed\<close>\<close>

definition accountName :: string where
  "accountName = ''OracleAccountData''"

definition loadData :: "'c externals \<Rightarrow> Account \<Rightarrow> 'c \<Rightarrow> error + OracleAccountData" where
  "loadData ext this c =
     (case OracleAccountData_fetch ext (program this) (publicKey this) c of
        Inl x \<Rightarrow> Inl (Thrown x)
      | Inr None \<Rightarrow> Inl (AccountNotFoundError (publicKey this))
      | Inr (Some data) \<Rightarrow> Inr data)"

text \<open>The argument of \<^verbatim>\<open>load\<close> is a \<^verbatim>\<open>PublicKey\<close> or a string.\<close>

datatype key = Key PublicKey | KeyString js_string

definition load :: "'c externals \<Rightarrow> program \<Rightarrow> key \<Rightarrow> 'c \<Rightarrow> error + Account \<times> OracleAccountData" where
  "load ext prog k c =
     (case (case k of KeyString s \<Rightarrow> newPublicKey ext s | Key p \<Rightarrow> Inr p) of
        Inl x \<Rightarrow> Inl (Thrown x)
      | Inr pk \<Rightarrow>
          (let account = \<lparr>program = prog, publicKey = pk\<rparr>
           in case loadData ext account c of
                Inl e \<Rightarrow> Inl e
              | Inr state \<Rightarrow> Inr (account, state)))"

definition decode :: "'c externals \<Rightarrow> Account \<Rightarrow> byte list \<Rightarrow> error + OracleAccountData" where
  "decode ext this data =
     (case OracleAccountData_decode ext data of
        Inr d \<Rightarrow> Inr d
      | Inl _ \<Rightarrow>
          (case coder_decode ext (program this) (js accountName) data of
             Inl x \<Rightarrow> Inl (Thrown x)
           | Inr d \<Rightarrow> Inr d))"

definition fromSeed :: "'c externals \<Rightarrow> program \<Rightarrow> PublicKey \<Rightarrow> PublicKey \<Rightarrow> Account \<times> nat" where
  "fromSeed ext prog queue wallet =
     (case findProgramAddressSync ext
             [Buffer_from_utf8 (js ''OracleAccountData''), toBuffer queue, toBuffer wallet]
             (programId prog) of
        (pk, bump) \<Rightarrow> (\<lparr>program = prog, publicKey = pk\<rparr>, bump))"

subsection \<open>\<^verbatim>\<open>stakeInstructions\<close>\<close>

record OracleStakeParams =
  stakeAmount :: "number option"
  funderTokenAccount :: "PublicKey option"
  funderAuthority :: "Keypair option"

text \<open>\<^verbatim>\<open>OracleStakeParams & { tokenAccount?: PublicKey }\<close>\<close>

record StakeParams = OracleStakeParams +
  stake_tokenAccount :: "PublicKey option"

text \<open>
  The pre-flight check is \<^verbatim>\<open>!params.stakeAmount || params.stakeAmount <= 0\<close>; an absent
  amount is \<^verbatim>\<open>undefined\<close>, which is falsy.
\<close>

definition stakeInstructions ::
  "'c externals \<Rightarrow> Account \<Rightarrow> PublicKey \<Rightarrow> 'z StakeParams_scheme \<Rightarrow> 'c \<Rightarrow> error + TransactionObject" where
  "stakeInstructions ext this payer' params c =
     (case stakeAmount params of
        None \<Rightarrow> Inl (Error ''stake amount should be greater than 0'')
      | Some amount \<Rightarrow>
          if \<not> truthy amount \<or> le0 amount
          then Inl (Error ''stake amount should be greater than 0'')
          else
            case (case stake_tokenAccount params of
                    Some t \<Rightarrow> Inr t
                  | None \<Rightarrow>
                      (case loadData ext this c of
                         Inl e \<Rightarrow> Inl e
                       | Inr d \<Rightarrow> Inr (tokenAccount d))) of
              Inl e \<Rightarrow> Inl e
            | Inr tokenWallet \<Rightarrow>
                (let funderAuthority' =
                       orElse (map_option kp_publicKey (funderAuthority params)) payer'
                 in case getOrCreateWrappedUserInstructions ext (program this) payer' amount
                           (funderAuthority params) c of
                      Inl x \<Rightarrow> Inl (Thrown x)
                    | Inr (funderTokenAccount', wrapFundsTxn) \<Rightarrow>
                        Inr (add wrapFundsTxn
                               (TokenTransfer funderTokenAccount' tokenWallet funderAuthority'
                                  (AmountBigInt (toTokenAmount ext (program this) amount))
                                  [] None))))"

subsection \<open>\<^verbatim>\<open>createInstructions\<close>\<close>

text \<open>\<^verbatim>\<open>{ queueAccount: QueueAccount } & OracleInitParams & OracleStakeParams\<close>\<close>

record CreateParams = OracleStakeParams +
  queueAccount :: Account
  name :: "js_string option"
  metadata :: "js_string option"
  authority :: "Keypair option"

text \<open>
  Lines 153 to 202: the \<^verbatim>\<open>oracleInit\<close> transaction object, from the generated token
  wallet, the derived oracle account and bump, and the rent-exempt balance.
\<close>

definition oracleInit ::
  "'c externals \<Rightarrow> program \<Rightarrow> PublicKey \<Rightarrow> 'z CreateParams_scheme \<Rightarrow> Keypair \<Rightarrow> Account \<Rightarrow> nat \<Rightarrow> nat
     \<Rightarrow> TransactionObject" where
  "oracleInit ext prog payer' params tokenWallet oracleAccount oracleBump rent =
     (let authority' = orElse (map_option kp_publicKey (authority params)) payer'
      in \<lparr>payer = payer',
          ixns =
            [SystemCreateAccount payer' (kp_publicKey tokenWallet) (ACCOUNT_SIZE ext) rent
               (TOKEN_PROGRAM_ID ext),
             InitializeAccount (kp_publicKey tokenWallet) (mint_address prog) authority',
             SetAuthority (kp_publicKey tokenWallet) authority' AccountOwner
               (programState_publicKey prog),
             OracleInit
               \<lparr>arg_name = slice0 32 (Buffer_from_utf8 (orElse (name params) (js ''''))),
                arg_metadata = slice0 128 (Buffer_from_utf8 (orElse (metadata params) (js ''''))),
                arg_oracleBump = oracleBump,
                arg_stateBump = programState_bump prog\<rparr>
               \<lparr>acc_oracle = publicKey oracleAccount,
                acc_oracleAuthority = authority',
                acc_wallet = kp_publicKey tokenWallet,
                acc_programState = programState_publicKey prog,
                acc_queue = publicKey (queueAccount params),
                acc_payer = payer',
                acc_systemProgram = SystemProgram_programId ext\<rparr>],
          signers = (case authority params of Some a \<Rightarrow> [a, tokenWallet] | None \<Rightarrow> [tokenWallet])\<rparr>)"

text \<open>
  Lines 141 to 214: the list \<^verbatim>\<open>txns\<close> that is handed to \<^verbatim>\<open>TransactionObject.pack\<close>.
  \<^verbatim>\<open>Keypair.generate()\<close> draws a fresh key pair; it is the argument \<open>tokenWallet\<close>.
  The stake branch is taken when \<^verbatim>\<open>params.stakeAmount && params.stakeAmount > 0\<close>.
\<close>

definition stakeAmount_positive :: "number option \<Rightarrow> bool" where
  "stakeAmount_positive a = (case a of None \<Rightarrow> False | Some x \<Rightarrow> truthy x \<and> gt0 x)"

definition createInstructions_txns ::
  "'c externals \<Rightarrow> program \<Rightarrow> PublicKey \<Rightarrow> 'z CreateParams_scheme \<Rightarrow> Keypair \<Rightarrow> 'c
     \<Rightarrow> error + Account \<times> TransactionObject list" where
  "createInstructions_txns ext prog payer' params tokenWallet c =
     (case fromSeed ext prog (publicKey (queueAccount params)) (kp_publicKey tokenWallet) of
        (oracleAccount, oracleBump) \<Rightarrow>
          (case getMinimumBalanceForRentExemption ext (ACCOUNT_SIZE ext) c of
             Inl x \<Rightarrow> Inl (Thrown x)
           | Inr rent \<Rightarrow>
               (let txns = [oracleInit ext prog payer' params tokenWallet oracleAccount oracleBump rent]
                in if stakeAmount_positive (stakeAmount params)
                   then
                     (case stakeInstructions ext oracleAccount payer'
                             \<lparr>stakeAmount = stakeAmount params,
                              funderTokenAccount = funderTokenAccount params,
                              funderAuthority = funderAuthority params,
                              stake_tokenAccount = Some (kp_publicKey tokenWallet)\<rparr> c of
                        Inl e \<Rightarrow> Inl e
                      | Inr depositTxn \<Rightarrow> Inr (oracleAccount, txns @ [depositTxn]))
                   else Inr (oracleAccount, txns))))"

text \<open>
  Lines 216 to 221. \<^verbatim>\<open>packed[0]\<close> of an empty array is \<^verbatim>\<open>undefined\<close>, here \<open>None\<close>.
\<close>

definition createInstructions ::
  "'c externals \<Rightarrow> program \<Rightarrow> PublicKey \<Rightarrow> 'z CreateParams_scheme \<Rightarrow> Keypair \<Rightarrow> 'c
     \<Rightarrow> error + Account \<times> TransactionObject option" where
  "createInstructions ext prog payer' params tokenWallet c =
     (case createInstructions_txns ext prog payer' params tokenWallet c of
        Inl e \<Rightarrow> Inl e
      | Inr (oracleAccount, txns) \<Rightarrow>
          (case pack ext txns of
             Inl x \<Rightarrow> Inl (Thrown x)
           | Inr packed \<Rightarrow>
               if length packed > 1 then Inl (Error ''Expected a single TransactionObject'')
               else Inr (oracleAccount, index packed 0)))"


subsection \<open>\<^verbatim>\<open>heartbeatInstruction\<close> and \<^verbatim>\<open>heartbeat\<close>\<close>

record HeartbeatInstructionParams =
  i_tokenWallet :: PublicKey
  i_gcOracle :: "PublicKey option"
  i_oracleQueue :: PublicKey
  i_dataBuffer :: PublicKey
  i_permission :: "Account \<times> nat"
  i_authority :: "PublicKey option"

definition heartbeatInstruction :: "Account \<Rightarrow> PublicKey \<Rightarrow> HeartbeatInstructionParams \<Rightarrow> instruction" where
  "heartbeatInstruction this payer' params =
     (case i_permission params of
        (permissionAccount, permissionBump) \<Rightarrow>
          OracleHeartbeat permissionBump
            \<lparr>hb_oracle = publicKey this,
             hb_oracleAuthority = orElse (i_authority params) payer',
             hb_tokenAccount = i_tokenWallet params,
             hb_gcOracle = i_gcOracle params,
             hb_oracleQueue = i_oracleQueue params,
             hb_permission = publicKey permissionAccount,
             hb_dataBuffer = i_dataBuffer params\<rparr>)"

record HeartbeatParams =
  p_queueAccount :: Account
  p_tokenWallet :: "PublicKey option"
  p_queueAuthority :: "PublicKey option"
  p_queue :: "OracleQueueAccountData option"
  p_permission :: "(Account \<times> nat) option"
  p_authority :: "Keypair option"

text \<open>\<^verbatim>\<open>params?.field\<close> of the optional argument \<^verbatim>\<open>params\<close>.\<close>

definition opt :: "'p option \<Rightarrow> ('p \<Rightarrow> 'a option) \<Rightarrow> 'a option" where
  "opt params field = (case params of None \<Rightarrow> None | Some p \<Rightarrow> field p)"

text \<open>Lines 345 to 347.\<close>

definition heartbeat_queueAccount :: "Account \<Rightarrow> HeartbeatParams option \<Rightarrow> OracleAccountData \<Rightarrow> Account" where
  "heartbeat_queueAccount this params oracle =
     orElse (map_option p_queueAccount params)
       \<lparr>program = program this, publicKey = queuePubkey oracle\<rparr>"

text \<open>Lines 352 to 355.\<close>

definition lastPubkey :: "Account \<Rightarrow> PublicKey list \<Rightarrow> OracleQueueAccountData \<Rightarrow> PublicKey option" where
  "lastPubkey this oracles queue =
     (if length oracles \<noteq> 0 then index oracles (gcIdx queue) else Some (publicKey this))"

text \<open>Lines 357 to 364.\<close>

definition heartbeat_permission ::
  "'c externals \<Rightarrow> Account \<Rightarrow> HeartbeatParams option \<Rightarrow> OracleQueueAccountData \<Rightarrow> Account
     \<Rightarrow> Account \<times> nat" where
  "heartbeat_permission ext this params queue queueAccount' =
     orElse (opt params p_permission)
       (PermissionAccount_fromSeed ext (program this) (q_authority queue)
          (publicKey queueAccount') (publicKey this))"

text \<open>Lines 383 to 396.\<close>

definition heartbeatTxn ::
  "Account \<Rightarrow> HeartbeatParams option \<Rightarrow> OracleAccountData \<Rightarrow> PublicKey \<Rightarrow> PublicKey option \<Rightarrow> Account
     \<Rightarrow> OracleQueueAccountData \<Rightarrow> Account \<times> nat \<Rightarrow> TransactionObject" where
  "heartbeatTxn this params oracle tokenWallet lastPubkey' queueAccount' queue permission =
     \<lparr>payer = walletPubkey (program this),
      ixns =
        [heartbeatInstruction this (walletPubkey (program this))
           \<lparr>i_tokenWallet = tokenWallet,
            i_gcOracle = lastPubkey',
            i_oracleQueue = publicKey queueAccount',
            i_dataBuffer = q_dataBuffer queue,
            i_permission = permission,
            i_authority = Some (oracleAuthority oracle)\<rparr>],
      signers = (case opt params p_authority of Some a \<Rightarrow> [a] | None \<Rightarrow> [])\<rparr>"

text \<open>
  \<^verbatim>\<open>program.signAndSend\<close>: the transaction is recorded in \<open>sent\<close>, and the outcome and
  the new state of the chain are those of the parameter.
\<close>

definition program_signAndSend ::
  "'c externals \<Rightarrow> program \<Rightarrow> TransactionObject \<Rightarrow> 'c world \<Rightarrow> (error + TransactionSignature) \<times> 'c world" where
  "program_signAndSend ext prog txn w =
     (case signAndSend ext prog txn (chain w) of
        (r, c') \<Rightarrow>
          ((case r of Inl x \<Rightarrow> Inl (Thrown x) | Inr sig \<Rightarrow> Inr sig),
           \<lparr>chain = c', sent = sent w @ [SignAndSend txn]\<rparr>))"

definition heartbeat ::
  "'c externals \<Rightarrow> Account \<Rightarrow> HeartbeatParams option \<Rightarrow> 'c world
     \<Rightarrow> (error + TransactionSignature) \<times> 'c world" where
  "heartbeat ext this params w =
     (case loadData ext this (chain w) of
        Inl e \<Rightarrow> (Inl e, w)
      | Inr oracle \<Rightarrow>
          (let tokenWallet = orElse (opt params p_tokenWallet) (tokenAccount oracle);
               queueAccount' = heartbeat_queueAccount this params oracle
           in case (case opt params p_queue of
                      Some q \<Rightarrow> Inr q
                    | None \<Rightarrow> QueueAccount_loadData ext queueAccount' (chain w)) of
                Inl x \<Rightarrow> (Inl (Thrown x), w)
              | Inr queue \<Rightarrow>
                  (case loadOracles ext queueAccount' (chain w) of
                     Inl x \<Rightarrow> (Inl (Thrown x), w)
                   | Inr oracles \<Rightarrow>
                       (let lastPubkey' = lastPubkey this oracles queue;
                            permission = heartbeat_permission ext this params queue queueAccount'
                        in case PermissionAccount_loadData ext (fst permission) (chain w) of
                             Inl _ \<Rightarrow>
                               (Inl (Error ''A requested oracle permission pda account has not been initialized.''), w)
                           | Inr _ \<Rightarrow>
                               (case opt params p_authority of
                                  None \<Rightarrow>
                                    program_signAndSend ext (program this)
                                      (heartbeatTxn this params oracle tokenWallet lastPubkey'
                                         queueAccount' queue permission) w
                                | Some a \<Rightarrow>
                                    if oracleAuthority oracle \<noteq> kp_publicKey a
                                    then (Inl (IncorrectAuthority (oracleAuthority oracle) (kp_publicKey a)), w)
                                    else
                                      program_signAndSend ext (program this)
                                        (heartbeatTxn this params oracle tokenWallet lastPubkey'
                                           queueAccount' queue permission) w)))))"


section \<open>\<^verbatim>\<open>token.ts\<close>\<close>

text \<open>
  A \<^verbatim>\<open>spl.Mint\<close> and a token \<^verbatim>\<open>spl.Account\<close>, with the fields that \<^verbatim>\<open>token.ts\<close>
  reads: \<^verbatim>\<open>mint.address\<close>, \<^verbatim>\<open>account.address\<close> and \<^verbatim>\<open>account.amount\<close> (a bigint
  that is never negative).
\<close>

record Mint =
  m_address :: PublicKey

record TokenAccount =
  t_address :: PublicKey
  t_amount :: nat

text \<open>
  What \<^verbatim>\<open>token.ts\<close> imports, as parameters; \<open>'p\<close> is an \<^verbatim>\<open>anchor.Program\<close> and \<open>'s\<close> a
  \<^verbatim>\<open>ProgramStateAccount\<close>. The connection is the chain. An optional argument that a call
  leaves out or passes as \<^verbatim>\<open>undefined\<close> is \<open>None\<close>. \<open>Number\<close> is the conversion of a
  bigint to a \<^verbatim>\<open>number\<close>.
\<close>

record ('c, 'p, 's) token_externals =
  NATIVE_MINT :: PublicKey
  spl_TOKEN_PROGRAM_ID :: PublicKey
  spl_ASSOCIATED_TOKEN_PROGRAM_ID :: PublicKey
  programWallet :: "'p \<Rightarrow> Keypair"
  getOrCreateAssociatedTokenAccount ::
    "Keypair \<Rightarrow> PublicKey \<Rightarrow> PublicKey \<Rightarrow> PublicKey option \<Rightarrow> PublicKey option \<Rightarrow> 'c
       \<Rightarrow> (thrown + TokenAccount) \<times> 'c"
  ProgramStateAccount_fromSeed :: "'p \<Rightarrow> 's \<times> nat"
  getTokenMint :: "'s \<Rightarrow> 'c \<Rightarrow> thrown + Mint option"
  getBalance :: "PublicKey \<Rightarrow> 'c \<Rightarrow> thrown + nat"
  getAssociatedTokenAddress :: "PublicKey \<Rightarrow> PublicKey \<Rightarrow> thrown + PublicKey"
  sendAndConfirmTransaction ::
    "instruction list \<Rightarrow> Keypair list \<Rightarrow> 'c \<Rightarrow> (thrown + TransactionSignature) \<times> 'c"
  getAccount :: "PublicKey \<Rightarrow> 'c \<Rightarrow> thrown + TokenAccount"
  Number :: "nat \<Rightarrow> number"

subsection \<open>\<^verbatim>\<open>getOrCreateSwitchboardTokenAccount\<close>\<close>

text \<open>The inner function \<^verbatim>\<open>getAssociatedAddress\<close>, lines 21 to 34.\<close>

definition getAssociatedAddress ::
  "('c, 'p, 's) token_externals \<Rightarrow> Keypair \<Rightarrow> Mint \<Rightarrow> 'c \<Rightarrow> (error + PublicKey) \<times> 'c" where
  "getAssociatedAddress ext payer' mint c =
     (case getOrCreateAssociatedTokenAccount ext payer' (m_address mint) (kp_publicKey payer')
             (Some (spl_TOKEN_PROGRAM_ID ext)) (Some (spl_ASSOCIATED_TOKEN_PROGRAM_ID ext)) c of
        (Inl x, c') \<Rightarrow> (Inl (Thrown x), c')
      | (Inr tokenAccount', c') \<Rightarrow> (Inr (t_address tokenAccount'), c'))"

text \<open>
  The third argument has the default \<^verbatim>\<open>programWallet(program)\<close>; \<open>None\<close> is a call
  without it.
\<close>

definition getOrCreateSwitchboardTokenAccount ::
  "('c, 'p, 's) token_externals \<Rightarrow> 'p \<Rightarrow> Mint option \<Rightarrow> Keypair option \<Rightarrow> 'c
     \<Rightarrow> (error + PublicKey) \<times> 'c" where
  "getOrCreateSwitchboardTokenAccount ext prog switchboardMint payer_arg c =
     (let payer' = orElse payer_arg (programWallet ext prog)
      in case switchboardMint of
           Some mint \<Rightarrow> getAssociatedAddress ext payer' mint c
         | None \<Rightarrow>
             (case ProgramStateAccount_fromSeed ext prog of
                (programState, _) \<Rightarrow>
                  (case getTokenMint ext programState c of
                     Inl x \<Rightarrow> (Inl (Thrown x), c)
                   | Inr (Some mint) \<Rightarrow> getAssociatedAddress ext payer' mint c
                   | Inr None \<Rightarrow> (Inl (Error ''failed to get associated token account''), c))))"

subsection \<open>\<^verbatim>\<open>transferWrappedSol\<close>\<close>

text \<open>Lines 71 to 101: the transaction, from the two wallets.\<close>

definition wrapTransaction ::
  "('c, 'p, 's) token_externals \<Rightarrow> Keypair \<Rightarrow> number \<Rightarrow> Keypair \<Rightarrow> PublicKey \<Rightarrow> PublicKey
     \<Rightarrow> instruction list" where
  "wrapTransaction ext payerKeypair amount' ephemeralAccount payerAssociatedWallet ephemeralWallet =
     [CreateAssociatedTokenAccount (kp_publicKey payerKeypair) ephemeralWallet
        (kp_publicKey payerKeypair) (NATIVE_MINT ext) (spl_TOKEN_PROGRAM_ID ext)
        (spl_ASSOCIATED_TOKEN_PROGRAM_ID ext),
      SystemTransfer (kp_publicKey payerKeypair) ephemeralWallet amount',
      SyncNative ephemeralWallet (spl_TOKEN_PROGRAM_ID ext),
      TokenTransfer ephemeralWallet payerAssociatedWallet (kp_publicKey payerKeypair)
        (AmountNumber amount') [payerKeypair, ephemeralAccount] (Some (spl_TOKEN_PROGRAM_ID ext)),
      CloseAccount ephemeralWallet (kp_publicKey payerKeypair) (kp_publicKey payerKeypair)
        [payerKeypair, ephemeralAccount] (spl_TOKEN_PROGRAM_ID ext)]"

text \<open>
  \<^verbatim>\<open>sendAndConfirmTransaction\<close>: the transaction and its signers are recorded in \<open>sent\<close>,
  and the outcome and the new state of the chain are those of the parameter.
\<close>

definition send_and_confirm ::
  "('c, 'p, 's) token_externals \<Rightarrow> instruction list \<Rightarrow> Keypair list \<Rightarrow> 'c world
     \<Rightarrow> (thrown + TransactionSignature) \<times> 'c world" where
  "send_and_confirm ext tx signers' w =
     (case sendAndConfirmTransaction ext tx signers' (chain w) of
        (r, c') \<Rightarrow> (r, \<lparr>chain = c', sent = sent w @ [SendAndConfirm tx signers']\<rparr>))"

text \<open>
  \<^verbatim>\<open>Keypair.generate()\<close> draws a fresh key pair; it is the argument \<open>ephemeralAccount\<close>.
\<close>

definition transferWrappedSol ::
  "('c, 'p, 's) token_externals \<Rightarrow> Keypair \<Rightarrow> number \<Rightarrow> Keypair \<Rightarrow> 'c world
     \<Rightarrow> (error + number) \<times> 'c world" where
  "transferWrappedSol ext payerKeypair amount' ephemeralAccount w =
     (case getBalance ext (kp_publicKey payerKeypair) (chain w) of
        Inl x \<Rightarrow> (Inl (Thrown x), w)
      | Inr payerBalance \<Rightarrow>
          (case getOrCreateAssociatedTokenAccount ext payerKeypair (NATIVE_MINT ext)
                  (kp_publicKey payerKeypair) None None (chain w) of
             (Inl x, c1) \<Rightarrow> (Inl (Thrown x), w\<lparr>chain := c1\<rparr>)
           | (Inr wallet, c1) \<Rightarrow>
               (let payerAssociatedWallet = t_address wallet
                in case getAssociatedTokenAddress ext (NATIVE_MINT ext) (kp_publicKey ephemeralAccount) of
                     Inl x \<Rightarrow> (Inl (Thrown x), w\<lparr>chain := c1\<rparr>)
                   | Inr ephemeralWallet \<Rightarrow>
                       (case send_and_confirm ext
                               (wrapTransaction ext payerKeypair amount' ephemeralAccount
                                  payerAssociatedWallet ephemeralWallet)
                               [payerKeypair, ephemeralAccount] (w\<lparr>chain := c1\<rparr>) of
                          (Inl x, w2) \<Rightarrow> (Inl (Thrown x), w2)
                        | (Inr txn, w2) \<Rightarrow>
                            (case getAccount ext payerAssociatedWallet (chain w2) of
                               Inl x \<Rightarrow> (Inl (Thrown x), w2)
                             | Inr finalBalance \<Rightarrow> (Inr (Number ext (t_amount finalBalance)), w2))))))"


section \<open>A sample environment\<close>

text \<open>
  Concrete values on which the theorems below are instantiated. The chain of the sample
  is the list of the oracle accounts that exist, and a program address is made from the
  first byte of each seed. The sample packs every list of transactions into one.
\<close>

definition key :: "nat \<Rightarrow> PublicKey" where
  "key n = PublicKey (of_nat n # replicate 31 0)"

definition sample_program :: program where
  "sample_program =
     \<lparr>programId = key 10, walletPubkey = key 11, mint_address = key 12,
      programState_publicKey = key 13, programState_bump = 254\<rparr>"

definition sample_oracle :: OracleAccountData where
  "sample_oracle = \<lparr>oracleAuthority = key 20, tokenAccount = key 21, queuePubkey = key 22\<rparr>"

definition sample_queue :: OracleQueueAccountData where
  "sample_queue = \<lparr>q_authority = key 30, gcIdx = 1, q_dataBuffer = key 31\<rparr>"

type_synonym sample_chain = "(PublicKey \<times> OracleAccountData) list"

definition sample :: "sample_chain externals" where
  "sample =
     \<lparr>ACCOUNT_SIZE = 165,
      TOKEN_PROGRAM_ID = key 1,
      SystemProgram_programId = key 0,
      newPublicKey =
        (\<lambda>s. if length s = 32 then Inr (PublicKey (map ucast s))
             else Inl (Exception ''Invalid public key input'')),
      findProgramAddressSync = (\<lambda>seeds pid. (PublicKey (map hd seeds @ replicate 29 0), 255)),
      getMinimumBalanceForRentExemption = (\<lambda>n c. Inr (n * 7000)),
      OracleAccountData_fetch = (\<lambda>p k c. Inr (map_of c k)),
      OracleAccountData_decode =
        (\<lambda>d. if d = [1] then Inr sample_oracle else Inl (Exception ''invalid account discriminator'')),
      coder_decode =
        (\<lambda>p n d. if n = js ''OracleAccountData'' \<and> d = [2] then Inr sample_oracle
                 else Inl (Exception ''Invalid account discriminator'')),
      getOrCreateWrappedUserInstructions =
        (\<lambda>p payer' a f c. Inr (key 40, \<lparr>payer = payer', ixns = [Prepared 0], signers = []\<rparr>)),
      toTokenAmount = (\<lambda>p a. case a of Num r \<Rightarrow> \<lfloor>r * 1000000000\<rfloor> | _ \<Rightarrow> 0),
      pack =
        (\<lambda>txns. Inr [\<lparr>payer = payer (hd txns), ixns = concat (map ixns txns),
                        signers = concat (map signers txns)\<rparr>]),
      QueueAccount_loadData = (\<lambda>a c. Inr sample_queue),
      loadOracles = (\<lambda>a c. Inr [key 50, key 51, key 52]),
      PermissionAccount_fromSeed =
        (\<lambda>p a g e. (\<lparr>program = p, publicKey = PublicKey (map (\<lambda>k. hd (toBuffer k)) [a, g, e] @ replicate 29 0)\<rparr>, 253)),
      PermissionAccount_loadData =
        (\<lambda>a c. if publicKey a = key 60 then Inl (Exception ''Account not found'') else Inr ()),
      signAndSend = (\<lambda>p t c. (Inr ''signature'', c))\<rparr>"

definition sample_this :: Account where
  "sample_this = \<lparr>program = sample_program, publicKey = key 7\<rparr>"

definition sample_wallet :: Keypair where
  "sample_wallet = Keypair (key 8) []"

text \<open>Eleven euro signs: 33 bytes in UTF-8.\<close>

definition sample_create :: CreateParams where
  "sample_create =
     \<lparr>stakeAmount = Some (Num 1.25), funderTokenAccount = None, funderAuthority = None,
      queueAccount = \<lparr>program = sample_program, publicKey = key 22\<rparr>,
      name = Some [0x20AC, 0x20AC, 0x20AC, 0x20AC, 0x20AC, 0x20AC, 0x20AC, 0x20AC, 0x20AC, 0x20AC, 0x20AC],
      metadata = None,
      authority = None\<rparr>"

definition sample_stake :: "number option \<Rightarrow> PublicKey option \<Rightarrow> StakeParams" where
  "sample_stake a t =
     \<lparr>stakeAmount = a, funderTokenAccount = None, funderAuthority = None, stake_tokenAccount = t\<rparr>"

definition sample_heartbeat :: "(Account \<times> nat) option \<Rightarrow> Keypair option \<Rightarrow> HeartbeatParams" where
  "sample_heartbeat perm auth =
     \<lparr>p_queueAccount = \<lparr>program = sample_program, publicKey = key 22\<rparr>,
      p_tokenWallet = None, p_queueAuthority = None, p_queue = None,
      p_permission = perm, p_authority = auth\<rparr>"

text \<open>
  A sample for \<^verbatim>\<open>token.ts\<close>: the chain is the list of the token accounts that exist; a
  confirmed transaction adds its first lamport transfer to the balance of the payer's wallet.
\<close>

type_synonym token_chain = "(PublicKey \<times> nat) list"

definition token_sample :: "(token_chain, unit, unit) token_externals" where
  "token_sample =
     \<lparr>NATIVE_MINT = key 2,
      spl_TOKEN_PROGRAM_ID = key 1,
      spl_ASSOCIATED_TOKEN_PROGRAM_ID = key 3,
      programWallet = (\<lambda>p. Keypair (key 11) []),
      getOrCreateAssociatedTokenAccount =
        (\<lambda>payer' mint owner p a c.
           (case map_of c owner of
              Some n \<Rightarrow> (Inr \<lparr>t_address = key 70, t_amount = n\<rparr>, c)
            | None \<Rightarrow> (Inr \<lparr>t_address = key 70, t_amount = 0\<rparr>, (owner, 0) # c))),
      ProgramStateAccount_fromSeed = (\<lambda>p. ((), 252)),
      getTokenMint = (\<lambda>s c. if c = [] then Inr None else Inr (Some \<lparr>m_address = key 12\<rparr>)),
      getBalance = (\<lambda>k c. Inr 5000),
      getAssociatedTokenAddress = (\<lambda>mint owner. Inr (key 71)),
      sendAndConfirmTransaction =
        (\<lambda>tx s c. (Inr ''signature'',
           (case tx of
              [CreateAssociatedTokenAccount p e ow mi tp ap, SystemTransfer f t (Num r), i3, i4, i5] \<Rightarrow>
                map (\<lambda>(k, n). if k = f then (k, n + nat \<lfloor>r\<rfloor>) else (k, n)) c
            | _ \<Rightarrow> c))),
      getAccount =
        (\<lambda>k c. case c of [] \<Rightarrow> Inl (Exception ''TokenAccountNotFoundError'')
                | (ow, n) # _ \<Rightarrow> Inr \<lparr>t_address = k, t_amount = n\<rparr>),
      Number = (\<lambda>n. Num (real n))\<rparr>"


section \<open>Properties\<close>

subsection \<open>Helper facts\<close>

lemma utf8_ascii_literal:
  "Buffer_from_utf8 (js ''OracleAccountData'') =
     [79, 114, 97, 99, 108, 101, 65, 99, 99, 111, 117, 110, 116, 68, 97, 116, 97]"
  by (simp add: Buffer_from_utf8_def js_def utf8_1_def)

lemma key_eq [simp]: "(key a = key b) = ((of_nat a :: byte) = of_nat b)"
  by (simp add: key_def)

lemma createInstructions_txns_head:
  "createInstructions_txns ext prog payer' params tokenWallet c = Inr (acct, txns) \<Longrightarrow>
     \<exists>rent. hd txns = oracleInit ext prog payer' params tokenWallet acct
                         (snd (fromSeed ext prog (publicKey (queueAccount params)) (kp_publicKey tokenWallet))) rent
       \<and> acct = fst (fromSeed ext prog (publicKey (queueAccount params)) (kp_publicKey tokenWallet))
       \<and> getMinimumBalanceForRentExemption ext (ACCOUNT_SIZE ext) c = Inr rent"
  by (auto simp: createInstructions_txns_def Let_def split: prod.splits sum.splits if_splits)

subsection \<open>The payload of \<^verbatim>\<open>oracleInit\<close>\<close>

text \<open>
  Claim C1. Whenever \<^verbatim>\<open>createInstructions\<close> gets as far as the list of transactions it
  packs, the fourth instruction of the first transaction is the \<^verbatim>\<open>oracleInit\<close>
  instruction, its name is the UTF-8 encoding of \<^verbatim>\<open>params.name\<close> (of the empty string
  when the name is absent) cut to its first 32 bytes, its metadata the encoding of
  \<^verbatim>\<open>params.metadata\<close> cut to its first 128 bytes; so the name has at most 32 bytes and
  the metadata at most 128, for every name and metadata.
\<close>

theorem oracleInit_payload_bounded:
  assumes "createInstructions_txns ext prog payer' params tokenWallet c = Inr (acct, txns)"
  shows "\<exists>args accs.
        ixns (hd txns) ! 3 = OracleInit args accs \<and>
        arg_name args = take 32 (Buffer_from_utf8 (case name params of None \<Rightarrow> [] | Some s \<Rightarrow> s)) \<and>
        length (arg_name args) \<le> 32 \<and>
        arg_metadata args = take 128 (Buffer_from_utf8 (case metadata params of None \<Rightarrow> [] | Some s \<Rightarrow> s)) \<and>
        length (arg_metadata args) \<le> 128"
proof -
  obtain rent where
    "hd txns = oracleInit ext prog payer' params tokenWallet acct
        (snd (fromSeed ext prog (publicKey (queueAccount params)) (kp_publicKey tokenWallet))) rent"
    using createInstructions_txns_head [OF assms] by blast
  then show ?thesis
    by (simp add: oracleInit_def Let_def slice0_def orElse_def js_def split: option.splits)
qed

text \<open>
  The sample: a name of eleven euro signs is 33 bytes long and is cut to 32, in the middle
  of the last character.
\<close>

lemma sample_txns:
  "createInstructions_txns sample sample_program (key 11) sample_create sample_wallet [] =
     Inr (fst (fromSeed sample sample_program (key 22) (key 8)),
          [oracleInit sample sample_program (key 11) sample_create sample_wallet
             (fst (fromSeed sample sample_program (key 22) (key 8))) 255 1155000,
           \<lparr>payer = key 11,
            ixns = [Prepared 0,
                    TokenTransfer (key 40) (key 8) (key 11) (AmountBigInt 1250000000) [] None],
            signers = []\<rparr>])"
  by (simp add: createInstructions_txns_def fromSeed_def sample_def sample_create_def
      sample_wallet_def stakeAmount_positive_def stakeInstructions_def orElse_def add_def Let_def)

theorem oracleInit_payload_bounded_witness:
  "createInstructions_txns sample sample_program (key 11) sample_create sample_wallet [] =
     Inr (fst (fromSeed sample sample_program (key 22) (key 8)),
          [oracleInit sample sample_program (key 11) sample_create sample_wallet
             (fst (fromSeed sample sample_program (key 22) (key 8))) 255 1155000,
           \<lparr>payer = key 11,
            ixns = [Prepared 0,
                    TokenTransfer (key 40) (key 8) (key 11) (AmountBigInt 1250000000) [] None],
            signers = []\<rparr>])
   \<and> (\<exists>args accs.
        ixns (oracleInit sample sample_program (key 11) sample_create sample_wallet
             (fst (fromSeed sample sample_program (key 22) (key 8))) 255 1155000) ! 3 = OracleInit args accs \<and>
        length (arg_name args) = 32 \<and> arg_metadata args = [])"
proof (rule conjI)
  show "createInstructions_txns sample sample_program (key 11) sample_create sample_wallet [] =
     Inr (fst (fromSeed sample sample_program (key 22) (key 8)),
          [oracleInit sample sample_program (key 11) sample_create sample_wallet
             (fst (fromSeed sample sample_program (key 22) (key 8))) 255 1155000,
           \<lparr>payer = key 11,
            ixns = [Prepared 0,
                    TokenTransfer (key 40) (key 8) (key 11) (AmountBigInt 1250000000) [] None],
            signers = []\<rparr>])"
    by (rule sample_txns)
next
  obtain args accs where
    ix: "ixns (oracleInit sample sample_program (key 11) sample_create sample_wallet
             (fst (fromSeed sample sample_program (key 22) (key 8))) 255 1155000) ! 3 = OracleInit args accs"
    and n: "arg_name args = take 32 (Buffer_from_utf8 (case name sample_create of None \<Rightarrow> [] | Some s \<Rightarrow> s))"
    and m: "arg_metadata args = take 128 (Buffer_from_utf8 (case metadata sample_create of None \<Rightarrow> [] | Some s \<Rightarrow> s))"
    using oracleInit_payload_bounded [OF sample_txns] by auto
  have "length (arg_name args) = 32"
    unfolding n by (simp add: sample_create_def Buffer_from_utf8_def utf8_3_def is_lead_def is_trail_def)
  moreover have "arg_metadata args = []"
    unfolding m by (simp add: sample_create_def Buffer_from_utf8_def)
  ultimately show "\<exists>args accs.
        ixns (oracleInit sample sample_program (key 11) sample_create sample_wallet
             (fst (fromSeed sample sample_program (key 22) (key 8))) 255 1155000) ! 3 = OracleInit args accs \<and>
        length (arg_name args) = 32 \<and> arg_metadata args = []"
    using ix by blast
qed



lemma gt0_iff: "gt0 a = (truthy a \<and> \<not> le0 a)"
  by (cases a) auto

lemma gt0_cases: "(\<not> gt0 a) = (a = NaN \<or> a = NegInfinity \<or> (\<exists>r. a = Num r \<and> r \<le> 0))"
  by (cases a) auto

lemma stakeAmount_positive_iff: "stakeAmount_positive a = (\<exists>x. a = Some x \<and> gt0 x)"
  by (cases a) (auto simp: stakeAmount_positive_def gt0_iff)

lemma loadData_cases:
  "loadData ext this c = Inl e \<Longrightarrow> e = AccountNotFoundError (publicKey this) \<or> (\<exists>x. e = Thrown x)"
  by (auto simp: loadData_def split: sum.splits option.splits)

lemma stakeInstructions_accepted:
  assumes "stakeAmount params = Some a" and "gt0 a"
  shows "stakeInstructions ext this payer' params c =
     (case (case stake_tokenAccount params of
              Some t \<Rightarrow> Inr t
            | None \<Rightarrow> (case loadData ext this c of Inl e \<Rightarrow> Inl e | Inr d \<Rightarrow> Inr (tokenAccount d))) of
        Inl e \<Rightarrow> Inl e
      | Inr tokenWallet \<Rightarrow>
          (case getOrCreateWrappedUserInstructions ext (program this) payer' a (funderAuthority params) c of
             Inl x \<Rightarrow> Inl (Thrown x)
           | Inr (fta, wrap) \<Rightarrow>
               Inr (add wrap
                      (TokenTransfer fta tokenWallet
                         (orElse (map_option kp_publicKey (funderAuthority params)) payer')
                         (AmountBigInt (toTokenAmount ext (program this) a)) [] None))))"
  using assms
  by (simp add: stakeInstructions_def gt0_iff Let_def split: sum.split option.split)

lemma stakeInstructions_rejected:
  assumes "\<not> (\<exists>a. stakeAmount params = Some a \<and> gt0 a)"
  shows "stakeInstructions ext this payer' params c = Inl (Error ''stake amount should be greater than 0'')"
  using assms by (cases "stakeAmount params") (auto simp: stakeInstructions_def gt0_iff)

lemma stakeInstructions_accepted_error:
  assumes "stakeAmount params = Some a" and "gt0 a"
    and "stakeInstructions ext this payer' params c = Inl e"
  shows "e = AccountNotFoundError (publicKey this) \<or> (\<exists>x. e = Thrown x)"
  using assms(3) unfolding stakeInstructions_accepted [OF assms(1,2)]
  by (auto split: option.splits sum.splits prod.splits dest: loadData_cases)

subsection \<open>The pre-flight check of \<^verbatim>\<open>stakeInstructions\<close>\<close>

text \<open>
  Claim C2, as amended. \<^verbatim>\<open>stakeInstructions\<close> throws \<^verbatim>\<open>stake amount should be greater
  than 0\<close> if and only if \<^verbatim>\<open>params.stakeAmount\<close> is absent, \<^verbatim>\<open>NaN\<close>, zero or negative
  (\<^verbatim>\<open>-Infinity\<close> included). For an amount greater than 0 the check passes; the transaction
  object is then built, as the wrap transaction followed by the token transfer into the
  staking wallet, whenever the staking wallet is known (\<^verbatim>\<open>params.tokenAccount\<close> is given,
  or \<^verbatim>\<open>loadData\<close> returns) and \<^verbatim>\<open>getOrCreateWrappedUserInstructions\<close> returns; and
  when no transaction object is built, the error is that of \<^verbatim>\<open>loadData\<close> or of
  \<^verbatim>\<open>getOrCreateWrappedUserInstructions\<close>.
\<close>

theorem stakeInstructions_preflight:
  "((stakeInstructions ext this payer' params c = Inl (Error ''stake amount should be greater than 0''))
      = (stakeAmount params = None \<or> stakeAmount params = Some NaN \<or>
         stakeAmount params = Some NegInfinity \<or>
         (\<exists>r. stakeAmount params = Some (Num r) \<and> r \<le> 0)))
   \<and> (\<forall>a t fta wrap.
         stakeAmount params = Some a \<and> gt0 a \<and>
         (stake_tokenAccount params = Some t \<or>
          stake_tokenAccount params = None \<and> (\<exists>d. loadData ext this c = Inr d \<and> tokenAccount d = t)) \<and>
         getOrCreateWrappedUserInstructions ext (program this) payer' a (funderAuthority params) c
           = Inr (fta, wrap)
         \<longrightarrow> stakeInstructions ext this payer' params c =
               Inr (add wrap
                      (TokenTransfer fta t
                         (orElse (map_option kp_publicKey (funderAuthority params)) payer')
                         (AmountBigInt (toTokenAmount ext (program this) a)) [] None)))
   \<and> (\<forall>a e.
         stakeAmount params = Some a \<and> gt0 a \<and>
         stakeInstructions ext this payer' params c = Inl e
         \<longrightarrow> (stake_tokenAccount params = None \<and> loadData ext this c = Inl e) \<or>
             (\<exists>x. getOrCreateWrappedUserInstructions ext (program this) payer' a (funderAuthority params) c
                    = Inl x \<and> e = Thrown x))"
proof (intro conjI allI impI)
  show "(stakeInstructions ext this payer' params c = Inl (Error ''stake amount should be greater than 0''))
      = (stakeAmount params = None \<or> stakeAmount params = Some NaN \<or>
         stakeAmount params = Some NegInfinity \<or>
         (\<exists>r. stakeAmount params = Some (Num r) \<and> r \<le> 0))"
  proof (cases "\<exists>a. stakeAmount params = Some a \<and> gt0 a")
    case True
    then obtain a where a: "stakeAmount params = Some a" "gt0 a" by blast
    have "stakeInstructions ext this payer' params c \<noteq> Inl (Error ''stake amount should be greater than 0'')"
    proof
      assume "stakeInstructions ext this payer' params c = Inl (Error ''stake amount should be greater than 0'')"
      from stakeInstructions_accepted_error [OF a this] show False by auto
    qed
    moreover have "\<not> (stakeAmount params = None \<or> stakeAmount params = Some NaN \<or>
         stakeAmount params = Some NegInfinity \<or>
         (\<exists>r. stakeAmount params = Some (Num r) \<and> r \<le> 0))"
      using a by auto
    ultimately show ?thesis by blast
  next
    case False
    have "stakeAmount params = None \<or> stakeAmount params = Some NaN \<or>
         stakeAmount params = Some NegInfinity \<or>
         (\<exists>r. stakeAmount params = Some (Num r) \<and> r \<le> 0)"
    proof (cases "stakeAmount params")
      case None
      then show ?thesis by simp
    next
      case (Some a)
      with False have "\<not> gt0 a" by simp
      then show ?thesis using Some by (simp add: gt0_cases)
    qed
    then show ?thesis using stakeInstructions_rejected [OF False] by simp
  qed
next
  fix a t fta wrap
  assume "stakeAmount params = Some a \<and> gt0 a \<and>
         (stake_tokenAccount params = Some t \<or>
          stake_tokenAccount params = None \<and> (\<exists>d. loadData ext this c = Inr d \<and> tokenAccount d = t)) \<and>
         getOrCreateWrappedUserInstructions ext (program this) payer' a (funderAuthority params) c
           = Inr (fta, wrap)"
  then show "stakeInstructions ext this payer' params c =
               Inr (add wrap
                      (TokenTransfer fta t
                         (orElse (map_option kp_publicKey (funderAuthority params)) payer')
                         (AmountBigInt (toTokenAmount ext (program this) a)) [] None))"
    by (auto simp: stakeInstructions_accepted)
next
  fix a e
  assume h: "stakeAmount params = Some a \<and> gt0 a \<and>
         stakeInstructions ext this payer' params c = Inl e"
  then have "stakeAmount params = Some a" "gt0 a" by simp_all
  from h [unfolded stakeInstructions_accepted [OF this]]
  show "(stake_tokenAccount params = None \<and> loadData ext this c = Inl e) \<or>
             (\<exists>x. getOrCreateWrappedUserInstructions ext (program this) payer' a (funderAuthority params) c
                    = Inl x \<and> e = Thrown x)"
    by (auto split: option.splits sum.splits prod.splits)
qed


text \<open>
  The claim as it was stated fails twice. With an amount of 1, no \<^verbatim>\<open>tokenAccount\<close> and
  an oracle account that does not exist, the check passes and \<^verbatim>\<open>loadData\<close> throws
  \<^verbatim>\<open>AccountNotFoundError\<close>: no transaction object is built. And \<^verbatim>\<open>NaN\<close>, which is
  neither absent nor zero nor negative, is rejected by the check.
\<close>

theorem stakeInstructions_counterexample:
  "gt0 (Num 1) \<and>
   stakeInstructions sample sample_this (key 11) (sample_stake (Some (Num 1)) None) []
     = Inl (AccountNotFoundError (key 7)) \<and>
   NaN \<noteq> Num 0 \<and> \<not> le0 NaN \<and>
   stakeInstructions sample sample_this (key 11) (sample_stake (Some NaN) None) []
     = Inl (Error ''stake amount should be greater than 0'')"
  by (simp add: stakeInstructions_def sample_stake_def sample_this_def loadData_def sample_def)

theorem stakeInstructions_preflight_witness:
  "stakeInstructions sample sample_this (key 11) (sample_stake (Some (Num 1.25)) (Some (key 8))) []
     = Inr \<lparr>payer = key 11,
            ixns = [Prepared 0, TokenTransfer (key 40) (key 8) (key 11) (AmountBigInt 1250000000) [] None],
            signers = []\<rparr> \<and>
   stakeInstructions sample sample_this (key 11) (sample_stake (Some (Num 1.25)) None)
       [(key 7, sample_oracle)]
     = Inr \<lparr>payer = key 11,
            ixns = [Prepared 0, TokenTransfer (key 40) (key 21) (key 11) (AmountBigInt 1250000000) [] None],
            signers = []\<rparr> \<and>
   stakeInstructions sample sample_this (key 11) (sample_stake (Some (Num 0)) (Some (key 8))) []
     = Inl (Error ''stake amount should be greater than 0'') \<and>
   stakeInstructions sample sample_this (key 11) (sample_stake (Some (Num 1.25)) None) []
     = Inl (AccountNotFoundError (key 7)) \<and>
   loadData sample sample_this [] = Inl (AccountNotFoundError (key 7))"
proof -
  let ?wrap = "\<lparr>payer = key 11, ixns = [Prepared 0], signers = []\<rparr>"
  have l: "loadData sample sample_this [(key 7, sample_oracle)] = Inr sample_oracle"
    by (simp add: loadData_def sample_def sample_this_def)
  have l0: "loadData sample sample_this [] = Inl (AccountNotFoundError (key 7))"
    by (simp add: loadData_def sample_def sample_this_def)
  have g: "getOrCreateWrappedUserInstructions sample (program sample_this) (key 11) (Num (5 / 4)) None c
             = Inr (key 40, ?wrap)" for c
    by (simp add: sample_def)
  have ta: "tokenAccount sample_oracle = key 21"
    by (simp add: sample_oracle_def)
  have t: "toTokenAmount sample (program sample_this) (Num (5 / 4)) = 1250000000"
    by (simp add: sample_def)
  have w1: "stakeInstructions sample sample_this (key 11) (sample_stake (Some (Num 1.25)) (Some (key 8))) []
     = Inr (add ?wrap (TokenTransfer (key 40) (key 8) (key 11) (AmountBigInt 1250000000) [] None))"
    using stakeInstructions_preflight
            [of sample sample_this "key 11" "sample_stake (Some (Num 1.25)) (Some (key 8))" "[]",
             THEN conjunct2, THEN conjunct1, rule_format, of "Num 1.25" "key 8" "key 40" ?wrap]
    by (simp add: sample_stake_def g t orElse_def)
  have w2: "stakeInstructions sample sample_this (key 11) (sample_stake (Some (Num 1.25)) None)
       [(key 7, sample_oracle)]
     = Inr (add ?wrap (TokenTransfer (key 40) (key 21) (key 11) (AmountBigInt 1250000000) [] None))"
    using stakeInstructions_preflight
            [of sample sample_this "key 11" "sample_stake (Some (Num 1.25)) None" "[(key 7, sample_oracle)]",
             THEN conjunct2, THEN conjunct1, rule_format, of "Num 1.25" "key 21" "key 40" ?wrap]
    by (simp add: sample_stake_def g t l orElse_def ta)
  have w3: "stakeInstructions sample sample_this (key 11) (sample_stake (Some (Num 0)) (Some (key 8))) []
     = Inl (Error ''stake amount should be greater than 0'')"
    using stakeInstructions_preflight
            [of sample sample_this "key 11" "sample_stake (Some (Num 0)) (Some (key 8))" "[]",
             THEN conjunct1]
    by (simp add: sample_stake_def)
  have s0: "stakeInstructions sample sample_this (key 11) (sample_stake (Some (Num 1.25)) None) []
     = Inl (AccountNotFoundError (key 7))"
    by (simp add: stakeInstructions_def sample_stake_def l0)
  have w4: "loadData sample sample_this [] = Inl (AccountNotFoundError (key 7))"
    using s0 stakeInstructions_preflight
            [of sample sample_this "key 11" "sample_stake (Some (Num 1.25)) None" "[]",
             THEN conjunct2, THEN conjunct2, rule_format, of "Num 1.25" "AccountNotFoundError (key 7)"]
    by (simp add: sample_stake_def g)
  show ?thesis
    using w1 w2 w3 w4 s0 by (simp add: add_def)
qed

subsection \<open>The transactions of \<^verbatim>\<open>createInstructions\<close>\<close>

lemma createInstructions_txns_shape:
  assumes "createInstructions_txns ext prog payer' params tokenWallet c = Inr (acct, txns)"
  shows "\<exists>rent.
     acct = fst (fromSeed ext prog (publicKey (queueAccount params)) (kp_publicKey tokenWallet)) \<and>
     getMinimumBalanceForRentExemption ext (ACCOUNT_SIZE ext) c = Inr rent \<and>
     (if \<exists>a. stakeAmount params = Some a \<and> gt0 a
      then \<exists>depositTxn.
             stakeInstructions ext acct payer'
               \<lparr>stakeAmount = stakeAmount params, funderTokenAccount = funderTokenAccount params,
                funderAuthority = funderAuthority params,
                stake_tokenAccount = Some (kp_publicKey tokenWallet)\<rparr> c = Inr depositTxn \<and>
             txns = [oracleInit ext prog payer' params tokenWallet acct
                       (snd (fromSeed ext prog (publicKey (queueAccount params)) (kp_publicKey tokenWallet))) rent,
                     depositTxn]
      else txns = [oracleInit ext prog payer' params tokenWallet acct
                     (snd (fromSeed ext prog (publicKey (queueAccount params)) (kp_publicKey tokenWallet))) rent])"
  using assms
  by (auto simp: createInstructions_txns_def Let_def stakeAmount_positive_iff
      split: prod.splits sum.splits if_splits)



text \<open>
  Claim C3. Whenever \<^verbatim>\<open>createInstructions\<close> gets as far as packing, the list it packs
  starts with the \<^verbatim>\<open>oracleInit\<close> transaction, and it has a second element, the
  transaction of \<^verbatim>\<open>stakeInstructions\<close>, if and only if \<^verbatim>\<open>params.stakeAmount\<close> is present
  and greater than 0; otherwise it has one element. If \<^verbatim>\<open>TransactionObject.pack\<close> yields
  more than one transaction, the error is \<^verbatim>\<open>Expected a single TransactionObject\<close>; if it
  yields one, that one is returned with the oracle account.
\<close>

theorem createInstructions_single:
  assumes "createInstructions_txns ext prog payer' params tokenWallet c = Inr (acct, txns)"
  shows "((length txns = 2) = (\<exists>a. stakeAmount params = Some a \<and> gt0 a)) \<and>
         ((length txns = 1) = (\<not> (\<exists>a. stakeAmount params = Some a \<and> gt0 a))) \<and>
         (\<exists>rent. getMinimumBalanceForRentExemption ext (ACCOUNT_SIZE ext) c = Inr rent \<and>
            hd txns = oracleInit ext prog payer' params tokenWallet acct
                        (snd (fromSeed ext prog (publicKey (queueAccount params)) (kp_publicKey tokenWallet)))
                        rent) \<and>
         (length txns = 2 \<longrightarrow>
            stakeInstructions ext acct payer'
              \<lparr>stakeAmount = stakeAmount params, funderTokenAccount = funderTokenAccount params,
               funderAuthority = funderAuthority params,
               stake_tokenAccount = Some (kp_publicKey tokenWallet)\<rparr> c = Inr (txns ! 1)) \<and>
         (\<forall>packed. pack ext txns = Inr packed \<longrightarrow>
            (1 < length packed \<longrightarrow>
               createInstructions ext prog payer' params tokenWallet c
                 = Inl (Error ''Expected a single TransactionObject'')) \<and>
            (\<forall>t. packed = [t] \<longrightarrow>
               createInstructions ext prog payer' params tokenWallet c = Inr (acct, Some t)))"
proof -
  let ?bump = "snd (fromSeed ext prog (publicKey (queueAccount params)) (kp_publicKey tokenWallet))"
  let ?stake = "stakeInstructions ext acct payer'
              \<lparr>stakeAmount = stakeAmount params, funderTokenAccount = funderTokenAccount params,
               funderAuthority = funderAuthority params,
               stake_tokenAccount = Some (kp_publicKey tokenWallet)\<rparr> c"
  obtain rent where rent: "getMinimumBalanceForRentExemption ext (ACCOUNT_SIZE ext) c = Inr rent"
    and txns: "if \<exists>a. stakeAmount params = Some a \<and> gt0 a
      then \<exists>depositTxn. ?stake = Inr depositTxn \<and>
             txns = [oracleInit ext prog payer' params tokenWallet acct ?bump rent, depositTxn]
      else txns = [oracleInit ext prog payer' params tokenWallet acct ?bump rent]"
    using createInstructions_txns_shape [OF assms] by blast
  have hd: "hd txns = oracleInit ext prog payer' params tokenWallet acct ?bump rent"
    using txns by (auto split: if_splits)
  have len2: "(length txns = 2) = (\<exists>a. stakeAmount params = Some a \<and> gt0 a)"
    using txns by (auto split: if_splits)
  have len1: "(length txns = 1) = (\<not> (\<exists>a. stakeAmount params = Some a \<and> gt0 a))"
    using txns by (auto split: if_splits)
  have stake: "length txns = 2 \<longrightarrow> ?stake = Inr (txns ! 1)"
    using txns by (auto split: if_splits)
  have packed: "\<forall>packed. pack ext txns = Inr packed \<longrightarrow>
            (1 < length packed \<longrightarrow>
               createInstructions ext prog payer' params tokenWallet c
                 = Inl (Error ''Expected a single TransactionObject'')) \<and>
            (\<forall>t. packed = [t] \<longrightarrow>
               createInstructions ext prog payer' params tokenWallet c = Inr (acct, Some t))"
    using assms by (simp add: createInstructions_def index_def)
  from rent hd have "\<exists>rent. getMinimumBalanceForRentExemption ext (ACCOUNT_SIZE ext) c = Inr rent \<and>
            hd txns = oracleInit ext prog payer' params tokenWallet acct ?bump rent"
    by blast
  with len2 len1 stake packed show ?thesis by blast
qed

lemma sample_pack:
  "pack sample [t1, t2] =
     Inr [\<lparr>payer = payer t1, ixns = ixns t1 @ ixns t2, signers = signers t1 @ signers t2\<rparr>]"
  by (simp add: sample_def)

theorem createInstructions_single_witness:
  "createInstructions_txns sample sample_program (key 11) sample_create sample_wallet [] =
     Inr (fst (fromSeed sample sample_program (key 22) (key 8)),
          [oracleInit sample sample_program (key 11) sample_create sample_wallet
             (fst (fromSeed sample sample_program (key 22) (key 8))) 255 1155000,
           \<lparr>payer = key 11,
            ixns = [Prepared 0,
                    TokenTransfer (key 40) (key 8) (key 11) (AmountBigInt 1250000000) [] None],
            signers = []\<rparr>])
   \<and> stakeAmount sample_create = Some (Num 1.25) \<and> gt0 (Num 1.25)
   \<and> (\<exists>t. createInstructions sample sample_program (key 11) sample_create sample_wallet []
             = Inr (fst (fromSeed sample sample_program (key 22) (key 8)), Some t)
           \<and> length (ixns t) = 6)"
proof -
  let ?t1 = "oracleInit sample sample_program (key 11) sample_create sample_wallet
             (fst (fromSeed sample sample_program (key 22) (key 8))) 255 1155000"
  let ?t2 = "\<lparr>payer = key 11,
            ixns = [Prepared 0,
                    TokenTransfer (key 40) (key 8) (key 11) (AmountBigInt 1250000000) [] None],
            signers = []\<rparr>"
  let ?t = "\<lparr>payer = payer ?t1, ixns = ixns ?t1 @ ixns ?t2, signers = signers ?t1 @ signers ?t2\<rparr>"
  have "createInstructions sample sample_program (key 11) sample_create sample_wallet []
             = Inr (fst (fromSeed sample sample_program (key 22) (key 8)), Some ?t)"
    using createInstructions_single [OF sample_txns, THEN conjunct2, THEN conjunct2, THEN conjunct2,
            THEN conjunct2, rule_format, of "[?t]", THEN conjunct2, rule_format, of ?t]
    by (simp add: sample_pack)
  moreover have "length (ixns ?t) = 6"
    by (simp add: oracleInit_def Let_def)
  moreover have "stakeAmount sample_create = Some (Num 1.25) \<and> gt0 (Num 1.25)"
    by (simp add: sample_create_def)
  ultimately show ?thesis
    using sample_txns by blast
qed

subsection \<open>\<^verbatim>\<open>fromSeed\<close>\<close>

text \<open>
  Claim C4. \<^verbatim>\<open>fromSeed\<close> reads neither the chain nor a random source: it is a function of
  its arguments. Its public key and bump are those of the program address derived from the
  seeds \<^verbatim>\<open>'OracleAccountData'\<close>, the bytes of the queue key and the bytes of the wallet key,
  and from the program id; two programs with the same program id give the same public key
  and the same bump.
\<close>

theorem fromSeed_deterministic:
  assumes "programId p1 = programId p2"
  shows "publicKey (fst (fromSeed ext p1 queue wallet)) = publicKey (fst (fromSeed ext p2 queue wallet)) \<and>
         snd (fromSeed ext p1 queue wallet) = snd (fromSeed ext p2 queue wallet) \<and>
         (publicKey (fst (fromSeed ext p1 queue wallet)), snd (fromSeed ext p1 queue wallet)) =
           findProgramAddressSync ext
             [[79, 114, 97, 99, 108, 101, 65, 99, 99, 111, 117, 110, 116, 68, 97, 116, 97],
              toBuffer queue, toBuffer wallet]
             (programId p1)"
  using assms by (simp add: fromSeed_def utf8_ascii_literal split: prod.splits)

theorem fromSeed_deterministic_witness:
  "programId sample_program = programId (sample_program\<lparr>walletPubkey := key 99\<rparr>) \<and>
   publicKey (fst (fromSeed sample sample_program (key 22) (key 8)))
     = PublicKey (79 # 22 # 8 # replicate 29 0) \<and>
   publicKey (fst (fromSeed sample (sample_program\<lparr>walletPubkey := key 99\<rparr>) (key 22) (key 8)))
     = PublicKey (79 # 22 # 8 # replicate 29 0) \<and>
   snd (fromSeed sample sample_program (key 22) (key 8)) = 255 \<and>
   snd (fromSeed sample (sample_program\<lparr>walletPubkey := key 99\<rparr>) (key 22) (key 8)) = 255"
proof -
  let ?p2 = "sample_program\<lparr>walletPubkey := key 99\<rparr>"
  have h: "programId sample_program = programId ?p2"
    by simp
  have f: "findProgramAddressSync sample
             [[79, 114, 97, 99, 108, 101, 65, 99, 99, 111, 117, 110, 116, 68, 97, 116, 97],
              toBuffer (key 22), toBuffer (key 8)] (programId sample_program)
           = (PublicKey (79 # 22 # 8 # replicate 29 0), 255)"
    by (simp add: sample_def key_def)
  note T = fromSeed_deterministic [OF h, of sample "key 22" "key 8"]
  note c1 = T [THEN conjunct1] and c2 = T [THEN conjunct2, THEN conjunct1]
    and c3 = T [THEN conjunct2, THEN conjunct2]
  from c3 have "(publicKey (fst (fromSeed sample sample_program (key 22) (key 8))),
                 snd (fromSeed sample sample_program (key 22) (key 8)))
                = (PublicKey (79 # 22 # 8 # replicate 29 0), 255)"
    unfolding f .
  then have pk1: "publicKey (fst (fromSeed sample sample_program (key 22) (key 8)))
     = PublicKey (79 # 22 # 8 # replicate 29 0)"
    and b1: "snd (fromSeed sample sample_program (key 22) (key 8)) = 255"
    by simp_all
  have pk2: "publicKey (fst (fromSeed sample ?p2 (key 22) (key 8)))
     = PublicKey (79 # 22 # 8 # replicate 29 0)"
    using c1 [symmetric] pk1 by simp
  have b2: "snd (fromSeed sample ?p2 (key 22) (key 8)) = 255"
    using c2 [symmetric] b1 by simp
  show ?thesis
    using h pk1 b1 pk2 b2 by simp
qed



subsection \<open>\<^verbatim>\<open>load\<close> and \<^verbatim>\<open>loadData\<close>\<close>

text \<open>
  Claim C5. For every public key, \<^verbatim>\<open>load\<close> returns the account built from the program and
  the key, paired with exactly what \<^verbatim>\<open>loadData\<close> returns for that account, and throws
  what \<^verbatim>\<open>loadData\<close> throws; a string that the \<^verbatim>\<open>PublicKey\<close> constructor accepts
  behaves as the key it denotes. \<^verbatim>\<open>loadData\<close> throws \<^verbatim>\<open>AccountNotFoundError\<close> if and only
  if the fetch returns \<^verbatim>\<open>null\<close>, then for the key of the account, and it returns the decoded
  data when the fetch returns some.
\<close>

theorem load_returns_loadData:
  "load ext prog (Key pk) c =
     (case loadData ext \<lparr>program = prog, publicKey = pk\<rparr> c of
        Inl e \<Rightarrow> Inl e
      | Inr state \<Rightarrow> Inr (\<lparr>program = prog, publicKey = pk\<rparr>, state)) \<and>
   (newPublicKey ext s = Inr pk \<longrightarrow> load ext prog (KeyString s) c = load ext prog (Key pk) c) \<and>
   ((\<exists>k. loadData ext this c = Inl (AccountNotFoundError k))
      = (OracleAccountData_fetch ext (program this) (publicKey this) c = Inr None)) \<and>
   (OracleAccountData_fetch ext (program this) (publicKey this) c = Inr None
      \<longrightarrow> loadData ext this c = Inl (AccountNotFoundError (publicKey this))) \<and>
   (\<forall>d. OracleAccountData_fetch ext (program this) (publicKey this) c = Inr (Some d)
      \<longrightarrow> loadData ext this c = Inr d)"
  by (auto simp: load_def loadData_def Let_def split: sum.splits option.splits)

lemma sample_fetch: "OracleAccountData_fetch sample p k c = Inr (map_of c k)"
  by (simp add: sample_def)

lemma sample_newPublicKey:
  "newPublicKey sample (7 # replicate 31 0) = Inr (key 7)"
  by (simp add: sample_def key_def)

theorem load_returns_loadData_witness:
  "load sample sample_program (Key (key 7)) [(key 7, sample_oracle)] = Inr (sample_this, sample_oracle) \<and>
   load sample sample_program (KeyString (7 # replicate 31 0)) [(key 7, sample_oracle)]
     = Inr (sample_this, sample_oracle) \<and>
   loadData sample sample_this [(key 7, sample_oracle)] = Inr sample_oracle \<and>
   loadData sample sample_this [] = Inl (AccountNotFoundError (key 7)) \<and>
   load sample sample_program (Key (key 7)) [] = Inl (AccountNotFoundError (key 7))"
proof -
  let ?c = "[(key 7, sample_oracle)]"
  have this_eq: "sample_this = \<lparr>program = sample_program, publicKey = key 7\<rparr>"
    by (simp add: sample_this_def)
  have l1: "loadData sample sample_this ?c = Inr sample_oracle"
    using load_returns_loadData [of sample sample_program "key 7" ?c "[]" sample_this,
            THEN conjunct2, THEN conjunct2, THEN conjunct2, THEN conjunct2, rule_format, of sample_oracle]
    by (simp add: sample_fetch this_eq)
  have l0: "loadData sample sample_this [] = Inl (AccountNotFoundError (key 7))"
    using load_returns_loadData [of sample sample_program "key 7" "[]" "[]" sample_this,
            THEN conjunct2, THEN conjunct2, THEN conjunct2, THEN conjunct1]
    by (simp add: sample_fetch this_eq)
  have k1: "load sample sample_program (Key (key 7)) ?c = Inr (sample_this, sample_oracle)"
    using load_returns_loadData [of sample sample_program "key 7" ?c "[]" sample_this, THEN conjunct1]
          l1
    by (simp add: this_eq)
  have k0: "load sample sample_program (Key (key 7)) [] = Inl (AccountNotFoundError (key 7))"
    using load_returns_loadData [of sample sample_program "key 7" "[]" "[]" sample_this, THEN conjunct1]
          l0
    by (simp add: this_eq)
  have s1: "load sample sample_program (KeyString (7 # replicate 31 0)) ?c = Inr (sample_this, sample_oracle)"
    using load_returns_loadData [of sample sample_program "key 7" ?c "7 # replicate 31 0" sample_this,
            THEN conjunct2, THEN conjunct1, rule_format, OF sample_newPublicKey]
          k1
    by simp
  show ?thesis using l1 l0 k1 k0 s1 by simp
qed

subsection \<open>\<^verbatim>\<open>decode\<close>\<close>

text \<open>
  Claim C10. When the generated codec decodes the buffer, \<^verbatim>\<open>decode\<close> returns exactly its
  result, whatever the program coder would do; when the generated codec throws,
  \<^verbatim>\<open>decode\<close> is the program coder's decode for the account name
  \<^verbatim>\<open>OracleAccountData\<close>.
\<close>

theorem decode_prefers_generated:
  "(\<forall>d. OracleAccountData_decode ext data = Inr d \<longrightarrow>
        decode ext this data = Inr d \<and>
        (\<forall>f. decode (ext\<lparr>coder_decode := f\<rparr>) this data = Inr d)) \<and>
   (\<forall>x. OracleAccountData_decode ext data = Inl x \<longrightarrow>
        decode ext this data =
          (case coder_decode ext (program this) (js ''OracleAccountData'') data of
             Inl y \<Rightarrow> Inl (Thrown y)
           | Inr d \<Rightarrow> Inr d))"
  by (simp add: decode_def accountName_def)

theorem decode_prefers_generated_witness:
  "decode sample sample_this [1] = Inr sample_oracle \<and>
   decode (sample\<lparr>coder_decode := (\<lambda>p n d. Inl (Exception ''unused''))\<rparr>) sample_this [1]
     = Inr sample_oracle \<and>
   decode sample sample_this [2] = Inr sample_oracle \<and>
   decode sample sample_this [3] = Inl (Thrown (Exception ''Invalid account discriminator''))"
proof -
  have g1: "OracleAccountData_decode sample [1] = Inr sample_oracle"
    by (simp add: sample_def)
  have g2: "OracleAccountData_decode sample [2] = Inl (Exception ''invalid account discriminator'')"
    by (simp add: sample_def)
  have g3: "OracleAccountData_decode sample [3] = Inl (Exception ''invalid account discriminator'')"
    by (simp add: sample_def)
  have c2: "coder_decode sample (program sample_this) (js ''OracleAccountData'') [2] = Inr sample_oracle"
    by (simp add: sample_def)
  have c3: "coder_decode sample (program sample_this) (js ''OracleAccountData'') [3]
              = Inl (Exception ''Invalid account discriminator'')"
    by (simp add: sample_def)
  note T1 = decode_prefers_generated [of sample "[1]" sample_this, THEN conjunct1, rule_format, OF g1]
  have d2: "decode sample sample_this [2] = Inr sample_oracle"
    using decode_prefers_generated [of sample "[2]" sample_this, THEN conjunct2, rule_format, OF g2]
    by (simp only: c2 sum.case)
  have d3: "decode sample sample_this [3] = Inl (Thrown (Exception ''Invalid account discriminator''))"
    using decode_prefers_generated [of sample "[3]" sample_this, THEN conjunct2, rule_format, OF g3]
    by (simp only: c3 sum.case)
  show ?thesis
    using T1 [THEN conjunct1] T1 [THEN conjunct2, rule_format, of "\<lambda>p n d. Inl (Exception ''unused'')"] d2 d3
    by simp
qed



subsection \<open>\<^verbatim>\<open>heartbeat\<close>\<close>

text \<open>
  Once the oracle account, the queue and the list of oracles are loaded, \<^verbatim>\<open>heartbeat\<close> is
  the check of the permission account, the check of the authority, and the submission.
\<close>

lemma heartbeat_after_loads:
  assumes "loadData ext this (chain w) = Inr oracle"
    and "(case opt params p_queue of
            Some q \<Rightarrow> Inr q
          | None \<Rightarrow> QueueAccount_loadData ext (heartbeat_queueAccount this params oracle) (chain w))
         = Inr queue"
    and "loadOracles ext (heartbeat_queueAccount this params oracle) (chain w) = Inr oracles"
  shows "heartbeat ext this params w =
     (let permission = heartbeat_permission ext this params queue (heartbeat_queueAccount this params oracle);
          txn = heartbeatTxn this params oracle (orElse (opt params p_tokenWallet) (tokenAccount oracle))
                  (lastPubkey this oracles queue) (heartbeat_queueAccount this params oracle) queue permission
      in case PermissionAccount_loadData ext (fst permission) (chain w) of
           Inl _ \<Rightarrow> (Inl (Error ''A requested oracle permission pda account has not been initialized.''), w)
         | Inr _ \<Rightarrow>
             (case opt params p_authority of
                None \<Rightarrow> program_signAndSend ext (program this) txn w
              | Some a \<Rightarrow>
                  if oracleAuthority oracle \<noteq> kp_publicKey a
                  then (Inl (IncorrectAuthority (oracleAuthority oracle) (kp_publicKey a)), w)
                  else program_signAndSend ext (program this) txn w))"
  using assms by (simp add: heartbeat_def Let_def)

lemma sent_program_signAndSend:
  "sent (snd (program_signAndSend ext prog txn w)) = sent w @ [SignAndSend txn]"
  by (simp add: program_signAndSend_def split: prod.splits)

lemma heartbeat_sent:
  assumes "loadData ext this (chain w) = Inr oracle"
    and "(case opt params p_queue of
            Some q \<Rightarrow> Inr q
          | None \<Rightarrow> QueueAccount_loadData ext (heartbeat_queueAccount this params oracle) (chain w))
         = Inr queue"
    and "loadOracles ext (heartbeat_queueAccount this params oracle) (chain w) = Inr oracles"
  shows "snd (heartbeat ext this params w) = w \<or>
         sent (snd (heartbeat ext this params w)) =
           sent w @ [SignAndSend
             (heartbeatTxn this params oracle (orElse (opt params p_tokenWallet) (tokenAccount oracle))
                  (lastPubkey this oracles queue) (heartbeat_queueAccount this params oracle) queue
                  (heartbeat_permission ext this params queue (heartbeat_queueAccount this params oracle)))]"
  unfolding heartbeat_after_loads [OF assms]
  by (simp add: Let_def sent_program_signAndSend split: sum.split option.split)

lemma heartbeatTxn_gcOracle:
  "\<exists>bump accs. ixns (heartbeatTxn this params oracle tokenWallet lastPubkey' queueAccount' queue permission)
       = [OracleHeartbeat bump accs] \<and> hb_gcOracle accs = lastPubkey'"
  by (simp add: heartbeatTxn_def heartbeatInstruction_def split: prod.splits)

text \<open>
  Claim C8. Once the three loads have returned, the \<^verbatim>\<open>gcOracle\<close> of the heartbeat is the
  oracle's own public key when the list of oracles is empty, and the entry at index
  \<^verbatim>\<open>queue.gcIdx\<close> when the list is not empty and the index is below its length; it is a
  public key (not \<^verbatim>\<open>undefined\<close>) if and only if the list is empty or the index is below its
  length. Every transaction that \<^verbatim>\<open>heartbeat\<close> submits holds exactly one instruction, the
  heartbeat, with that \<^verbatim>\<open>gcOracle\<close>; and \<^verbatim>\<open>heartbeatInstruction\<close> copies
  \<^verbatim>\<open>params.gcOracle\<close> into the instruction.
\<close>

theorem heartbeat_gcOracle:
  assumes "loadData ext this (chain w) = Inr oracle"
    and "(case opt params p_queue of
            Some q \<Rightarrow> Inr q
          | None \<Rightarrow> QueueAccount_loadData ext (heartbeat_queueAccount this params oracle) (chain w))
         = Inr queue"
    and "loadOracles ext (heartbeat_queueAccount this params oracle) (chain w) = Inr oracles"
  shows "(oracles = [] \<longrightarrow> lastPubkey this oracles queue = Some (publicKey this)) \<and>
         (oracles \<noteq> [] \<and> gcIdx queue < length oracles
            \<longrightarrow> lastPubkey this oracles queue = Some (oracles ! gcIdx queue)) \<and>
         ((lastPubkey this oracles queue \<noteq> None) = (oracles = [] \<or> gcIdx queue < length oracles)) \<and>
         (\<forall>t. sent (snd (heartbeat ext this params w)) = sent w @ [SignAndSend t]
            \<longrightarrow> (\<exists>bump accs. ixns t = [OracleHeartbeat bump accs] \<and>
                               hb_gcOracle accs = lastPubkey this oracles queue)) \<and>
         (\<forall>payer' p. \<exists>bump accs. heartbeatInstruction this payer' p = OracleHeartbeat bump accs \<and>
                               hb_gcOracle accs = i_gcOracle p)"
proof -
  have a: "oracles = [] \<longrightarrow> lastPubkey this oracles queue = Some (publicKey this)"
    by (simp add: lastPubkey_def)
  have b: "oracles \<noteq> [] \<and> gcIdx queue < length oracles
            \<longrightarrow> lastPubkey this oracles queue = Some (oracles ! gcIdx queue)"
    by (simp add: lastPubkey_def index_def)
  have c: "(lastPubkey this oracles queue \<noteq> None) = (oracles = [] \<or> gcIdx queue < length oracles)"
    by (simp add: lastPubkey_def index_def)
  have d: "\<forall>t. sent (snd (heartbeat ext this params w)) = sent w @ [SignAndSend t]
            \<longrightarrow> (\<exists>bump accs. ixns t = [OracleHeartbeat bump accs] \<and>
                               hb_gcOracle accs = lastPubkey this oracles queue)"
  proof (intro allI impI)
    fix t
    assume s: "sent (snd (heartbeat ext this params w)) = sent w @ [SignAndSend t]"
    then have "snd (heartbeat ext this params w) \<noteq> w" by auto
    with heartbeat_sent [OF assms] s
    have "t = heartbeatTxn this params oracle (orElse (opt params p_tokenWallet) (tokenAccount oracle))
                  (lastPubkey this oracles queue) (heartbeat_queueAccount this params oracle) queue
                  (heartbeat_permission ext this params queue (heartbeat_queueAccount this params oracle))"
      by simp
    then show "\<exists>bump accs. ixns t = [OracleHeartbeat bump accs] \<and>
                               hb_gcOracle accs = lastPubkey this oracles queue"
      using heartbeatTxn_gcOracle by simp
  qed
  have e: "\<forall>payer' p. \<exists>bump accs. heartbeatInstruction this payer' p = OracleHeartbeat bump accs \<and>
                               hb_gcOracle accs = i_gcOracle p"
    by (simp add: heartbeatInstruction_def split: prod.splits)
  from a b c d e show ?thesis by blast
qed

text \<open>
  Claim C9. Once the three loads have returned: if the permission account cannot be loaded,
  \<^verbatim>\<open>heartbeat\<close> throws \<^verbatim>\<open>A requested oracle permission pda account has not been
  initialized.\<close>; if it can, and \<^verbatim>\<open>params.authority\<close> is a key pair whose public key differs
  from the \<^verbatim>\<open>oracleAuthority\<close> on chain, it throws \<^verbatim>\<open>IncorrectAuthority\<close>; and in
  either case the world is unchanged: nothing was handed over for signing and sending.
\<close>

theorem heartbeat_guards:
  assumes "loadData ext this (chain w) = Inr oracle"
    and "(case opt params p_queue of
            Some q \<Rightarrow> Inr q
          | None \<Rightarrow> QueueAccount_loadData ext (heartbeat_queueAccount this params oracle) (chain w))
         = Inr queue"
    and "loadOracles ext (heartbeat_queueAccount this params oracle) (chain w) = Inr oracles"
  shows "((\<exists>x. PermissionAccount_loadData ext
                 (fst (heartbeat_permission ext this params queue (heartbeat_queueAccount this params oracle)))
                 (chain w) = Inl x)
            \<longrightarrow> heartbeat ext this params w =
                  (Inl (Error ''A requested oracle permission pda account has not been initialized.''), w)) \<and>
         (\<forall>a. (\<exists>u. PermissionAccount_loadData ext
                 (fst (heartbeat_permission ext this params queue (heartbeat_queueAccount this params oracle)))
                 (chain w) = Inr u) \<and>
               opt params p_authority = Some a \<and> kp_publicKey a \<noteq> oracleAuthority oracle
            \<longrightarrow> heartbeat ext this params w =
                  (Inl (IncorrectAuthority (oracleAuthority oracle) (kp_publicKey a)), w)) \<and>
         (\<forall>a. (\<exists>x. PermissionAccount_loadData ext
                 (fst (heartbeat_permission ext this params queue (heartbeat_queueAccount this params oracle)))
                 (chain w) = Inl x) \<or>
               (opt params p_authority = Some a \<and> kp_publicKey a \<noteq> oracleAuthority oracle)
            \<longrightarrow> isl (fst (heartbeat ext this params w)) \<and> snd (heartbeat ext this params w) = w)"
  unfolding heartbeat_after_loads [OF assms]
  by (auto simp: Let_def split: sum.splits option.splits)


lemma sample_loadData: "loadData sample sample_this [(key 7, sample_oracle)] = Inr sample_oracle"
  by (simp add: loadData_def sample_def sample_this_def)

lemma sample_loadOracles: "loadOracles sample qa c = Inr [key 50, key 51, key 52]"
  by (simp add: sample_def)

lemma sample_permission_load:
  "PermissionAccount_loadData sample a c =
     (if publicKey a = key 60 then Inl (Exception ''Account not found'') else Inr ())"
  by (simp add: sample_def)

lemma sample_signAndSend: "signAndSend sample p t c = (Inr ''signature'', c)"
  by (simp add: sample_def)

theorem heartbeat_gcOracle_witness:
  "loadData sample sample_this [(key 7, sample_oracle)] = Inr sample_oracle \<and>
   gcIdx sample_queue = 1 \<and>
   lastPubkey sample_this [key 50, key 51, key 52] sample_queue = Some (key 51) \<and>
   (\<exists>t bump accs.
      sent (snd (heartbeat sample sample_this None \<lparr>chain = [(key 7, sample_oracle)], sent = []\<rparr>))
        = [SignAndSend t] \<and>
      ixns t = [OracleHeartbeat bump accs] \<and> hb_gcOracle accs = Some (key 51))"
proof -
  let ?w = "\<lparr>chain = [(key 7, sample_oracle)], sent = []\<rparr> :: sample_chain world"
  have ld: "loadData sample sample_this (chain ?w) = Inr sample_oracle"
    by (simp add: sample_loadData)
  have q: "(case opt None p_queue of
      Some q \<Rightarrow> Inr q
    | None \<Rightarrow> QueueAccount_loadData sample (heartbeat_queueAccount sample_this None sample_oracle) (chain ?w))
   = Inr sample_queue"
    by (simp add: opt_def sample_def)
  have lo: "loadOracles sample (heartbeat_queueAccount sample_this None sample_oracle) (chain ?w)
              = Inr [key 50, key 51, key 52]"
    by (rule sample_loadOracles)
  note T = heartbeat_gcOracle [OF ld q lo]
  have g: "gcIdx sample_queue = 1"
    by (simp add: sample_queue_def)
  have l: "lastPubkey sample_this [key 50, key 51, key 52] sample_queue = Some (key 51)"
    using T [THEN conjunct2, THEN conjunct1] by (simp add: g)
  let ?t = "heartbeatTxn sample_this None sample_oracle (tokenAccount sample_oracle)
              (lastPubkey sample_this [key 50, key 51, key 52] sample_queue)
              (heartbeat_queueAccount sample_this None sample_oracle) sample_queue
              (heartbeat_permission sample sample_this None sample_queue
                 (heartbeat_queueAccount sample_this None sample_oracle))"
  have p: "publicKey (fst (heartbeat_permission sample sample_this None sample_queue
                 (heartbeat_queueAccount sample_this None sample_oracle))) \<noteq> key 60"
    by (simp add: heartbeat_permission_def opt_def orElse_def sample_def sample_queue_def key_def)
  have s: "sent (snd (heartbeat sample sample_this None ?w)) = sent ?w @ [SignAndSend ?t]"
    by (simp add: heartbeat_after_loads [OF ld q lo] Let_def sample_permission_load p opt_def
        orElse_def program_signAndSend_def sample_signAndSend)
  from T [THEN conjunct2, THEN conjunct2, THEN conjunct2, THEN conjunct1, rule_format, OF s]
  obtain bump accs where "ixns ?t = [OracleHeartbeat bump accs]"
    and "hb_gcOracle accs = lastPubkey sample_this [key 50, key 51, key 52] sample_queue"
    by blast
  with s l have "\<exists>t bump accs.
      sent (snd (heartbeat sample sample_this None ?w)) = [SignAndSend t] \<and>
      ixns t = [OracleHeartbeat bump accs] \<and> hb_gcOracle accs = Some (key 51)"
    by auto
  with sample_loadData g l show ?thesis by blast
qed

theorem heartbeat_guards_witness:
  "heartbeat sample sample_this
     (Some (sample_heartbeat (Some (\<lparr>program = sample_program, publicKey = key 60\<rparr>, 1)) None))
     \<lparr>chain = [(key 7, sample_oracle)], sent = []\<rparr>
     = (Inl (Error ''A requested oracle permission pda account has not been initialized.''),
        \<lparr>chain = [(key 7, sample_oracle)], sent = []\<rparr>) \<and>
   heartbeat sample sample_this
     (Some (sample_heartbeat None (Some (Keypair (key 99) []))))
     \<lparr>chain = [(key 7, sample_oracle)], sent = []\<rparr>
     = (Inl (IncorrectAuthority (key 20) (key 99)),
        \<lparr>chain = [(key 7, sample_oracle)], sent = []\<rparr>)"
proof -
  let ?w = "\<lparr>chain = [(key 7, sample_oracle)], sent = []\<rparr> :: sample_chain world"
  let ?p1 = "Some (sample_heartbeat (Some (\<lparr>program = sample_program, publicKey = key 60\<rparr>, 1)) None)"
  let ?p2 = "Some (sample_heartbeat None (Some (Keypair (key 99) [])))"
  have ld: "loadData sample sample_this (chain ?w) = Inr sample_oracle"
    by (simp add: sample_loadData)
  have q: "(case opt params p_queue of
      Some q \<Rightarrow> Inr q
    | None \<Rightarrow> QueueAccount_loadData sample (heartbeat_queueAccount sample_this params sample_oracle) (chain ?w))
   = Inr sample_queue" if "opt params p_queue = None" for params
    using that by (simp add: sample_def)
  have q1: "opt ?p1 p_queue = None" and q2: "opt ?p2 p_queue = None"
    by (simp_all add: opt_def sample_heartbeat_def)
  have lo: "loadOracles sample (heartbeat_queueAccount sample_this params sample_oracle) (chain ?w)
              = Inr [key 50, key 51, key 52]" for params
    by (rule sample_loadOracles)
  have f1: "\<exists>x. PermissionAccount_loadData sample
                 (fst (heartbeat_permission sample sample_this ?p1 sample_queue
                         (heartbeat_queueAccount sample_this ?p1 sample_oracle)))
                 (chain ?w) = Inl x"
    by (simp add: sample_permission_load heartbeat_permission_def opt_def orElse_def sample_heartbeat_def)
  have f2: "(\<exists>u. PermissionAccount_loadData sample
                 (fst (heartbeat_permission sample sample_this ?p2 sample_queue
                         (heartbeat_queueAccount sample_this ?p2 sample_oracle)))
                 (chain ?w) = Inr u) \<and>
            opt ?p2 p_authority = Some (Keypair (key 99) []) \<and>
            kp_publicKey (Keypair (key 99) []) \<noteq> oracleAuthority sample_oracle"
    by (simp add: sample_permission_load heartbeat_permission_def opt_def orElse_def sample_heartbeat_def
        sample_def sample_queue_def sample_oracle_def key_def heartbeat_queueAccount_def sample_this_def)
  have a: "heartbeat sample sample_this ?p1 ?w =
             (Inl (Error ''A requested oracle permission pda account has not been initialized.''), ?w)"
    using heartbeat_guards [OF ld q [OF q1] lo, THEN conjunct1] f1 by blast
  have b: "heartbeat sample sample_this ?p2 ?w =
             (Inl (IncorrectAuthority (oracleAuthority sample_oracle) (kp_publicKey (Keypair (key 99) []))), ?w)"
    using heartbeat_guards [OF ld q [OF q2] lo, THEN conjunct2, THEN conjunct1, rule_format, OF f2] .
  have "oracleAuthority sample_oracle = key 20"
    by (simp add: sample_oracle_def)
  with a b show ?thesis by simp
qed



subsection \<open>\<^verbatim>\<open>getOrCreateSwitchboardTokenAccount\<close>\<close>

lemma getAssociatedAddress_error:
  "fst (getAssociatedAddress ext payer' mint c) \<noteq> Inl (Error msg)"
  by (simp add: getAssociatedAddress_def split: prod.splits sum.splits)

text \<open>
  Claim C7. With a mint given, the result is that of \<^verbatim>\<open>getAssociatedAddress\<close> for the
  payer and that mint; with no mint given, the program state account is derived and, when
  it yields a mint, the result is that of \<^verbatim>\<open>getAssociatedAddress\<close> for the payer and the
  mint of the program state. The error \<^verbatim>\<open>failed to get associated token account\<close> is
  thrown if and only if no mint is given and the program state yields none. And
  \<^verbatim>\<open>getAssociatedAddress\<close> returns the address of the associated token account that the
  token library gets or creates for the payer's public key and the mint.
\<close>

theorem getOrCreateSwitchboardTokenAccount_cases:
  "(\<forall>m. switchboardMint = Some m \<longrightarrow>
       getOrCreateSwitchboardTokenAccount ext prog switchboardMint payer_arg c
         = getAssociatedAddress ext (orElse payer_arg (programWallet ext prog)) m c) \<and>
   (\<forall>m. switchboardMint = None \<and>
        getTokenMint ext (fst (ProgramStateAccount_fromSeed ext prog)) c = Inr (Some m) \<longrightarrow>
       getOrCreateSwitchboardTokenAccount ext prog switchboardMint payer_arg c
         = getAssociatedAddress ext (orElse payer_arg (programWallet ext prog)) m c) \<and>
   ((fst (getOrCreateSwitchboardTokenAccount ext prog switchboardMint payer_arg c)
       = Inl (Error ''failed to get associated token account''))
      = (switchboardMint = None \<and>
         getTokenMint ext (fst (ProgramStateAccount_fromSeed ext prog)) c = Inr None)) \<and>
   (\<forall>payer' m ta c'.
       getOrCreateAssociatedTokenAccount ext payer' (m_address m) (kp_publicKey payer')
         (Some (spl_TOKEN_PROGRAM_ID ext)) (Some (spl_ASSOCIATED_TOKEN_PROGRAM_ID ext)) c = (Inr ta, c')
       \<longrightarrow> getAssociatedAddress ext payer' m c = (Inr (t_address ta), c'))"
proof (intro conjI allI impI)
  fix m assume "switchboardMint = Some m"
  then show "getOrCreateSwitchboardTokenAccount ext prog switchboardMint payer_arg c
         = getAssociatedAddress ext (orElse payer_arg (programWallet ext prog)) m c"
    by (simp add: getOrCreateSwitchboardTokenAccount_def Let_def)
next
  fix m assume "switchboardMint = None \<and>
        getTokenMint ext (fst (ProgramStateAccount_fromSeed ext prog)) c = Inr (Some m)"
  then show "getOrCreateSwitchboardTokenAccount ext prog switchboardMint payer_arg c
         = getAssociatedAddress ext (orElse payer_arg (programWallet ext prog)) m c"
    by (auto simp: getOrCreateSwitchboardTokenAccount_def Let_def split: prod.splits)
next
  show "(fst (getOrCreateSwitchboardTokenAccount ext prog switchboardMint payer_arg c)
       = Inl (Error ''failed to get associated token account''))
      = (switchboardMint = None \<and>
         getTokenMint ext (fst (ProgramStateAccount_fromSeed ext prog)) c = Inr None)"
    by (auto simp: getOrCreateSwitchboardTokenAccount_def Let_def getAssociatedAddress_error
        split: prod.splits sum.splits option.splits)
next
  fix payer' and m :: Mint and ta c'
  assume "getOrCreateAssociatedTokenAccount ext payer' (m_address m) (kp_publicKey payer')
         (Some (spl_TOKEN_PROGRAM_ID ext)) (Some (spl_ASSOCIATED_TOKEN_PROGRAM_ID ext)) c = (Inr ta, c')"
  then show "getAssociatedAddress ext payer' m c = (Inr (t_address ta), c')"
    by (simp add: getAssociatedAddress_def)
qed

lemma token_sample_ata:
  "getOrCreateAssociatedTokenAccount token_sample payer' mint owner p a c =
     (case map_of c owner of
        Some n \<Rightarrow> (Inr \<lparr>t_address = key 70, t_amount = n\<rparr>, c)
      | None \<Rightarrow> (Inr \<lparr>t_address = key 70, t_amount = 0\<rparr>, (owner, 0) # c))"
  by (simp add: token_sample_def)

lemma token_sample_mint:
  "getTokenMint token_sample s c = (if c = [] then Inr None else Inr (Some \<lparr>m_address = key 12\<rparr>))"
  by (simp add: token_sample_def)

theorem getOrCreateSwitchboardTokenAccount_cases_witness:
  "getOrCreateSwitchboardTokenAccount token_sample () (Some \<lparr>m_address = key 12\<rparr>) None []
     = (Inr (key 70), [(key 11, 0)]) \<and>
   getOrCreateSwitchboardTokenAccount token_sample () None None [(key 11, 100)]
     = (Inr (key 70), [(key 11, 100)]) \<and>
   fst (getOrCreateSwitchboardTokenAccount token_sample () None None [])
     = Inl (Error ''failed to get associated token account'')"
proof -
  have w: "orElse None (programWallet token_sample ()) = Keypair (key 11) []"
    by (simp add: orElse_def token_sample_def)
  have a1: "getAssociatedAddress token_sample (Keypair (key 11) []) \<lparr>m_address = key 12\<rparr> []
              = (Inr (key 70), [(key 11, 0)])"
    using getOrCreateSwitchboardTokenAccount_cases
            [of "Some \<lparr>m_address = key 12\<rparr>" token_sample "()" None "[]",
             THEN conjunct2, THEN conjunct2, THEN conjunct2, rule_format,
             of "Keypair (key 11) []" "\<lparr>m_address = key 12\<rparr>" "\<lparr>t_address = key 70, t_amount = 0\<rparr>"
                "[(key 11, 0)]"]
    by (simp add: token_sample_ata)
  have a2: "getAssociatedAddress token_sample (Keypair (key 11) []) \<lparr>m_address = key 12\<rparr> [(key 11, 100)]
              = (Inr (key 70), [(key 11, 100)])"
    using getOrCreateSwitchboardTokenAccount_cases
            [of "Some \<lparr>m_address = key 12\<rparr>" token_sample "()" None "[(key 11, 100)]",
             THEN conjunct2, THEN conjunct2, THEN conjunct2, rule_format,
             of "Keypair (key 11) []" "\<lparr>m_address = key 12\<rparr>" "\<lparr>t_address = key 70, t_amount = 100\<rparr>"
                "[(key 11, 100)]"]
    by (simp add: token_sample_ata)
  have r1: "getOrCreateSwitchboardTokenAccount token_sample () (Some \<lparr>m_address = key 12\<rparr>) None []
     = (Inr (key 70), [(key 11, 0)])"
    using getOrCreateSwitchboardTokenAccount_cases
            [of "Some \<lparr>m_address = key 12\<rparr>" token_sample "()" None "[]",
             THEN conjunct1, rule_format, of "\<lparr>m_address = key 12\<rparr>"]
    by (simp add: w a1)
  have r2: "getOrCreateSwitchboardTokenAccount token_sample () None None [(key 11, 100)]
     = (Inr (key 70), [(key 11, 100)])"
    using getOrCreateSwitchboardTokenAccount_cases
            [of None token_sample "()" None "[(key 11, 100)]",
             THEN conjunct2, THEN conjunct1, rule_format, of "\<lparr>m_address = key 12\<rparr>"]
    by (simp add: w a2 token_sample_mint)
  have r3: "fst (getOrCreateSwitchboardTokenAccount token_sample () None None [])
     = Inl (Error ''failed to get associated token account'')"
    using getOrCreateSwitchboardTokenAccount_cases
            [of None token_sample "()" None "[]", THEN conjunct2, THEN conjunct2, THEN conjunct1]
    by (simp add: token_sample_mint)
  from r1 r2 r3 show ?thesis by simp
qed



subsection \<open>\<^verbatim>\<open>transferWrappedSol\<close>\<close>

lemma sent_send_and_confirm:
  "sent (snd (send_and_confirm ext tx signers' w)) = sent w @ [SendAndConfirm tx signers']"
  by (simp add: send_and_confirm_def split: prod.splits)

lemma transferWrappedSol_after_lookups:
  assumes "getBalance ext (kp_publicKey payerKeypair) (chain w) = Inr b"
    and "getOrCreateAssociatedTokenAccount ext payerKeypair (NATIVE_MINT ext)
           (kp_publicKey payerKeypair) None None (chain w) = (Inr wallet, c1)"
    and "getAssociatedTokenAddress ext (NATIVE_MINT ext) (kp_publicKey ephemeralAccount)
           = Inr ephemeralWallet"
  shows "transferWrappedSol ext payerKeypair amount' ephemeralAccount w =
     (case send_and_confirm ext
             (wrapTransaction ext payerKeypair amount' ephemeralAccount (t_address wallet) ephemeralWallet)
             [payerKeypair, ephemeralAccount] (w\<lparr>chain := c1\<rparr>) of
        (Inl x, w2) \<Rightarrow> (Inl (Thrown x), w2)
      | (Inr txn, w2) \<Rightarrow>
          (case getAccount ext (t_address wallet) (chain w2) of
             Inl x \<Rightarrow> (Inl (Thrown x), w2)
           | Inr finalBalance \<Rightarrow> (Inr (Number ext (t_amount finalBalance)), w2)))"
  using assms by (simp add: transferWrappedSol_def Let_def)

text \<open>
  Claim C6. For every amount, once the balance, the payer's associated wallet and the
  address of the ephemeral wallet are obtained, \<^verbatim>\<open>transferWrappedSol\<close> hands over exactly
  one transaction, signed by the payer and the ephemeral key pair, whose instructions are, in
  this order: create the ephemeral associated token account of the native mint, transfer
  \<^verbatim>\<open>amount\<close> lamports from the payer to it, sync its native balance, transfer \<^verbatim>\<open>amount\<close>
  tokens from it to the payer's associated wallet, close it with the payer as destination.
  When the transaction is confirmed and the payer's associated wallet is then read, the
  result is the amount of that wallet in the state of the chain after the confirmation, as a
  number.
\<close>

theorem transferWrappedSol_transaction:
  assumes "getBalance ext (kp_publicKey payerKeypair) (chain w) = Inr b"
    and "getOrCreateAssociatedTokenAccount ext payerKeypair (NATIVE_MINT ext)
           (kp_publicKey payerKeypair) None None (chain w) = (Inr wallet, c1)"
    and "getAssociatedTokenAddress ext (NATIVE_MINT ext) (kp_publicKey ephemeralAccount)
           = Inr ephemeralWallet"
  shows "sent (snd (transferWrappedSol ext payerKeypair amount' ephemeralAccount w)) =
           sent w @
           [SendAndConfirm
              [CreateAssociatedTokenAccount (kp_publicKey payerKeypair) ephemeralWallet
                 (kp_publicKey payerKeypair) (NATIVE_MINT ext) (spl_TOKEN_PROGRAM_ID ext)
                 (spl_ASSOCIATED_TOKEN_PROGRAM_ID ext),
               SystemTransfer (kp_publicKey payerKeypair) ephemeralWallet amount',
               SyncNative ephemeralWallet (spl_TOKEN_PROGRAM_ID ext),
               TokenTransfer ephemeralWallet (t_address wallet) (kp_publicKey payerKeypair)
                 (AmountNumber amount') [payerKeypair, ephemeralAccount] (Some (spl_TOKEN_PROGRAM_ID ext)),
               CloseAccount ephemeralWallet (kp_publicKey payerKeypair) (kp_publicKey payerKeypair)
                 [payerKeypair, ephemeralAccount] (spl_TOKEN_PROGRAM_ID ext)]
              [payerKeypair, ephemeralAccount]] \<and>
         (\<forall>sig c2 finalBalance.
            sendAndConfirmTransaction ext
              (wrapTransaction ext payerKeypair amount' ephemeralAccount (t_address wallet) ephemeralWallet)
              [payerKeypair, ephemeralAccount] c1 = (Inr sig, c2) \<and>
            getAccount ext (t_address wallet) c2 = Inr finalBalance
            \<longrightarrow> fst (transferWrappedSol ext payerKeypair amount' ephemeralAccount w)
                  = Inr (Number ext (t_amount finalBalance)) \<and>
                chain (snd (transferWrappedSol ext payerKeypair amount' ephemeralAccount w)) = c2)"
proof (intro conjI allI impI)
  have "sent (snd (transferWrappedSol ext payerKeypair amount' ephemeralAccount w)) =
          sent (snd (send_and_confirm ext
             (wrapTransaction ext payerKeypair amount' ephemeralAccount (t_address wallet) ephemeralWallet)
             [payerKeypair, ephemeralAccount] (w\<lparr>chain := c1\<rparr>)))"
    unfolding transferWrappedSol_after_lookups [OF assms]
    by (simp split: prod.splits sum.splits)
  then show "sent (snd (transferWrappedSol ext payerKeypair amount' ephemeralAccount w)) =
           sent w @
           [SendAndConfirm
              [CreateAssociatedTokenAccount (kp_publicKey payerKeypair) ephemeralWallet
                 (kp_publicKey payerKeypair) (NATIVE_MINT ext) (spl_TOKEN_PROGRAM_ID ext)
                 (spl_ASSOCIATED_TOKEN_PROGRAM_ID ext),
               SystemTransfer (kp_publicKey payerKeypair) ephemeralWallet amount',
               SyncNative ephemeralWallet (spl_TOKEN_PROGRAM_ID ext),
               TokenTransfer ephemeralWallet (t_address wallet) (kp_publicKey payerKeypair)
                 (AmountNumber amount') [payerKeypair, ephemeralAccount] (Some (spl_TOKEN_PROGRAM_ID ext)),
               CloseAccount ephemeralWallet (kp_publicKey payerKeypair) (kp_publicKey payerKeypair)
                 [payerKeypair, ephemeralAccount] (spl_TOKEN_PROGRAM_ID ext)]
              [payerKeypair, ephemeralAccount]]"
    by (simp add: sent_send_and_confirm wrapTransaction_def)
next
  fix sig c2 finalBalance
  assume h: "sendAndConfirmTransaction ext
              (wrapTransaction ext payerKeypair amount' ephemeralAccount (t_address wallet) ephemeralWallet)
              [payerKeypair, ephemeralAccount] c1 = (Inr sig, c2) \<and>
            getAccount ext (t_address wallet) c2 = Inr finalBalance"
  then show "fst (transferWrappedSol ext payerKeypair amount' ephemeralAccount w)
                  = Inr (Number ext (t_amount finalBalance))"
    unfolding transferWrappedSol_after_lookups [OF assms]
    by (simp add: send_and_confirm_def)
  from h show "chain (snd (transferWrappedSol ext payerKeypair amount' ephemeralAccount w)) = c2"
    unfolding transferWrappedSol_after_lookups [OF assms]
    by (simp add: send_and_confirm_def)
qed

theorem transferWrappedSol_transaction_witness:
  "sent (snd (transferWrappedSol token_sample (Keypair (key 11) []) (Num 7) (Keypair (key 72) [])
                \<lparr>chain = [(key 11, 100)], sent = []\<rparr>)) =
     [SendAndConfirm
        [CreateAssociatedTokenAccount (key 11) (key 71) (key 11) (key 2) (key 1) (key 3),
         SystemTransfer (key 11) (key 71) (Num 7),
         SyncNative (key 71) (key 1),
         TokenTransfer (key 71) (key 70) (key 11) (AmountNumber (Num 7))
           [Keypair (key 11) [], Keypair (key 72) []] (Some (key 1)),
         CloseAccount (key 71) (key 11) (key 11) [Keypair (key 11) [], Keypair (key 72) []] (key 1)]
        [Keypair (key 11) [], Keypair (key 72) []]] \<and>
   fst (transferWrappedSol token_sample (Keypair (key 11) []) (Num 7) (Keypair (key 72) [])
          \<lparr>chain = [(key 11, 100)], sent = []\<rparr>) = Inr (Num 107)"
proof -
  let ?payer = "Keypair (key 11) []"
  let ?eph = "Keypair (key 72) []"
  let ?w = "\<lparr>chain = [(key 11, 100)], sent = []\<rparr> :: token_chain world"
  let ?wallet = "\<lparr>t_address = key 70, t_amount = 100\<rparr>"
  have b: "getBalance token_sample (kp_publicKey ?payer) (chain ?w) = Inr 5000"
    by (simp add: token_sample_def)
  have a: "getOrCreateAssociatedTokenAccount token_sample ?payer (NATIVE_MINT token_sample)
           (kp_publicKey ?payer) None None (chain ?w) = (Inr ?wallet, [(key 11, 100)])"
    by (simp add: token_sample_ata)
  have e: "getAssociatedTokenAddress token_sample (NATIVE_MINT token_sample) (kp_publicKey ?eph)
           = Inr (key 71)"
    by (simp add: token_sample_def)
  note T = transferWrappedSol_transaction [OF b a e, of "Num 7"]
  have s: "sendAndConfirmTransaction token_sample
              (wrapTransaction token_sample ?payer (Num 7) ?eph (t_address ?wallet) (key 71))
              [?payer, ?eph] [(key 11, 100)] = (Inr ''signature'', [(key 11, 107)])"
    by (simp add: token_sample_def wrapTransaction_def)
  have g: "getAccount token_sample (t_address ?wallet) [(key 11, 107)]
             = Inr \<lparr>t_address = key 70, t_amount = 107\<rparr>"
    by (simp add: token_sample_def)
  have n: "Number token_sample 107 = Num 107"
    by (simp add: token_sample_def)
  have c: "NATIVE_MINT token_sample = key 2" "spl_TOKEN_PROGRAM_ID token_sample = key 1"
    "spl_ASSOCIATED_TOKEN_PROGRAM_ID token_sample = key 3"
    by (simp_all add: token_sample_def)
  have r: "fst (transferWrappedSol token_sample ?payer (Num 7) ?eph ?w) = Inr (Num 107)"
    using T [THEN conjunct2, rule_format, of "''signature''" "[(key 11, 107)]"
               "\<lparr>t_address = key 70, t_amount = 107\<rparr>"] s g n
    by simp
  show ?thesis
    using T [THEN conjunct1] r by (simp add: c)
qed


end
